theory Spec2Isabelle
  imports Complex_Main
begin

section \<open>Python values\<close>

text \<open>
  The application (\<^verbatim>\<open>app.py\<close>) passes around values decoded from JSON: the sensor
  payload, the patient profile and the three logs. They are modelled by one datatype.
  A dictionary is an association list read with \<open>map_of\<close>; its keys are strings, as in
  JSON. A Python float is modelled by the real it stands for; infinities and NaN are
  outside the model. Integers are unbounded, as in Python, and their conversion to a
  float rounds and overflows as Python's does (\<open>float_of_int\<close> below).
\<close>

datatype pyval =
    PNone
  | PBool bool
  | PInt int
  | PFloat real
  | PStr string
  | PList "pyval list"
  | PDict "(string \<times> pyval) list"

type_synonym pydict = "(string \<times> pyval) list"

text \<open>The exceptions a call can end with; \<open>ModelError\<close> is one raised inside the classifier.\<close>

datatype error = TypeError | ValueError | AttributeError | OverflowError | ModelError

text \<open>
  The built-in conversions between strings and numbers are Python's, not the
  application's: they are parameters of the model.
\<close>

record builtins =
  float_of_str :: "string \<Rightarrow> real option"
  int_of_str :: "string \<Rightarrow> int option"
  str_of_float :: "real \<Rightarrow> string"
  str_of_int :: "int \<Rightarrow> string"

text \<open>Sequencing of two steps, the first of which may raise.\<close>

definition sum_bind :: "error + 'a \<Rightarrow> ('a \<Rightarrow> error + 'b) \<Rightarrow> error + 'b" where
  "sum_bind m f = (case m of Inl e \<Rightarrow> Inl e | Inr x \<Rightarrow> f x)"

text \<open>Truth value of an object, as \<^verbatim>\<open>x or y\<close> tests it.\<close>

fun truthy :: "pyval \<Rightarrow> bool" where
  "truthy PNone = False"
| "truthy (PBool b) = b"
| "truthy (PInt i) = (i \<noteq> 0)"
| "truthy (PFloat r) = (r \<noteq> 0)"
| "truthy (PStr s) = (s \<noteq> [])"
| "truthy (PList xs) = (xs \<noteq> [])"
| "truthy (PDict d) = (d \<noteq> [])"

text \<open>
  \<^verbatim>\<open>float(i)\<close> on an integer. An integer of at most 53 bits is converted exactly. A
  longer one is rounded to 53 significant bits, to nearest and ties to even, and the
  conversion raises OverflowError when the rounded value reaches \<open>2 ^ 1024\<close>.
  \<open>bit_length\<close> is \<^verbatim>\<open>int.bit_length\<close>.
\<close>

fun bit_length :: "nat \<Rightarrow> nat" where
  "bit_length n = (if n = 0 then 0 else Suc (bit_length (n div 2)))"

declare bit_length.simps [simp del]

definition float_of_int :: "int \<Rightarrow> error + real" where
  "float_of_int i =
     (let n = nat \<bar>i\<bar>; len = bit_length n in
      if len \<le> 53 then Inr (of_int i)
      else
        let s = len - 53;
            q = n div 2 ^ s;
            r = n mod 2 ^ s;
            half = 2 ^ (s - 1);
            q' = (if half < r \<or> (r = half \<and> odd q) then q + 1 else q);
            m = q' * 2 ^ s
        in if 2 ^ 1024 \<le> m then Inl OverflowError
           else Inr (if i < 0 then - of_nat m else of_nat m))"

text \<open>\<^verbatim>\<open>float(x)\<close>.\<close>

fun py_float :: "builtins \<Rightarrow> pyval \<Rightarrow> error + real" where
  "py_float B PNone = Inl TypeError"
| "py_float B (PBool b) = Inr (if b then 1 else 0)"
| "py_float B (PInt i) = float_of_int i"
| "py_float B (PFloat r) = Inr r"
| "py_float B (PStr s) = (case float_of_str B s of None \<Rightarrow> Inl ValueError | Some r \<Rightarrow> Inr r)"
| "py_float B (PList xs) = Inl TypeError"
| "py_float B (PDict d) = Inl TypeError"

text \<open>\<^verbatim>\<open>int(x)\<close>: a float is truncated towards zero.\<close>

fun py_int :: "builtins \<Rightarrow> pyval \<Rightarrow> error + int" where
  "py_int B PNone = Inl TypeError"
| "py_int B (PBool b) = Inr (if b then 1 else 0)"
| "py_int B (PInt i) = Inr i"
| "py_int B (PFloat r) = Inr (if 0 \<le> r then \<lfloor>r\<rfloor> else \<lceil>r\<rceil>)"
| "py_int B (PStr s) = (case int_of_str B s of None \<Rightarrow> Inl ValueError | Some i \<Rightarrow> Inr i)"
| "py_int B (PList xs) = Inl TypeError"
| "py_int B (PDict d) = Inl TypeError"

text \<open>\<^verbatim>\<open>d.get(k, default)\<close> on a dictionary.\<close>

definition dict_get :: "pydict \<Rightarrow> string \<Rightarrow> pyval \<Rightarrow> pyval" where
  "dict_get d k dflt = (case map_of d k of None \<Rightarrow> dflt | Some v \<Rightarrow> v)"

text \<open>\<^verbatim>\<open>x.get(k, default)\<close> on any object: only a dictionary has the method.\<close>

fun attr_get :: "pyval \<Rightarrow> string \<Rightarrow> pyval \<Rightarrow> error + pyval" where
  "attr_get (PDict d) k dflt = Inr (dict_get d k dflt)"
| "attr_get v k dflt = Inl AttributeError"

text \<open>
  \<^verbatim>\<open>m.get(key, default)\<close> on one of the encoding tables, whose keys are strings: a
  list or a dictionary is not hashable, every other non-string key is simply absent.
\<close>

fun map_get :: "(string \<times> int) list \<Rightarrow> pyval \<Rightarrow> int \<Rightarrow> error + int" where
  "map_get m (PStr s) dflt = Inr (case map_of m s of None \<Rightarrow> dflt | Some i \<Rightarrow> i)"
| "map_get m (PList xs) dflt = Inl TypeError"
| "map_get m (PDict d) dflt = Inl TypeError"
| "map_get m v dflt = Inr dflt"

text \<open>\<^verbatim>\<open>xs.append(x)\<close>: only a list has the method.\<close>

fun py_append :: "pyval \<Rightarrow> pyval \<Rightarrow> error + pyval" where
  "py_append (PList xs) x = Inr (PList (xs @ [x]))"
| "py_append v x = Inl AttributeError"

text \<open>\<^verbatim>\<open>s in t\<close> on strings: \<open>s\<close> occurs in \<open>t\<close> as a contiguous piece.\<close>

fun str_in :: "string \<Rightarrow> string \<Rightarrow> bool" where
  "str_in s [] = (s = [])"
| "str_in s (c # cs) = (take (length s) (c # cs) = s \<or> str_in s cs)"

section \<open>Program state\<close>

text \<open>
  The module's globals \<^verbatim>\<open>future_model\<close> and \<^verbatim>\<open>FEATURES_FUTURE\<close>, and the four JSON
  files. A file that is missing or does not parse is \<open>None\<close>. The classifier
  (\<^verbatim>\<open>predict_proba(X)[0][1]\<close>) is a function of the vector that may raise.
\<close>

datatype path = PATIENT_FILE | READINGS_FILE | ATTACKS_FILE | ALERTS_FILE

record state =
  future_model :: "(real list \<Rightarrow> error + real) option"
  FEATURES_FUTURE :: "string list"
  files :: "path \<Rightarrow> pyval option"

definition default_patient :: pydict where
  "default_patient =
     [(''name'', PStr ''Hari''),
      (''age'', PInt 21),
      (''gender'', PStr ''Male''),
      (''smoker'', PStr ''Non-smoker''),
      (''allergy_present'', PStr ''No''),
      (''allergy_type'', PStr ''None''),
      (''occupation'', PStr ''Home/Office'')]"

text \<open>
  \<^verbatim>\<open>load_json\<close> returns the default for a missing or unreadable file, and the empty
  dictionary stands in for a default of \<^verbatim>\<open>None\<close>. \<^verbatim>\<open>save_json\<close> replaces the file; the
  write itself is taken to succeed (the source prints a message and carries on when it
  does not).
\<close>

definition load_json :: "state \<Rightarrow> path \<Rightarrow> pyval \<Rightarrow> pyval" where
  "load_json st p dflt0 =
     (let dflt = (if dflt0 = PNone then PDict [] else dflt0) in
      case files st p of None \<Rightarrow> dflt | Some v \<Rightarrow> v)"

definition save_json :: "state \<Rightarrow> path \<Rightarrow> pyval \<Rightarrow> state" where
  "save_json st p data = st\<lparr>files := (files st)(p := Some data)\<rparr>"

section \<open>ML inference: \<^verbatim>\<open>run_future_model\<close>\<close>

text \<open>Lines 91 to 95: the five sensor features.\<close>

definition sensor_features :: "builtins \<Rightarrow> pydict \<Rightarrow> error + (real \<times> real \<times> real \<times> real \<times> real)" where
  "sensor_features B sensor =
     sum_bind (py_float B (dict_get sensor ''humidity'' (PInt 0))) (\<lambda>hum.
     sum_bind (py_float B (dict_get sensor ''temperature'' (PInt 0))) (\<lambda>temp.
     sum_bind (py_float B (dict_get sensor ''mq2'' (PInt 0))) (\<lambda>mq2.
     sum_bind (py_float B (dict_get sensor ''mq135'' (PInt 0))) (\<lambda>mq135.
     sum_bind (py_float B (dict_get sensor ''dust_equiv'' (dict_get sensor ''dust'' (PInt 0)))) (\<lambda>dust.
     Inr (hum, temp, mq2, mq135, dust))))))"

text \<open>Lines 104 to 132: the three encoding tables.\<close>

definition smoker_map :: "(string \<times> int) list" where
  "smoker_map = [(''Non-smoker'', 0), (''Passive smoker'', 1), (''Active smoker'', 2)]"

definition allergy_type_map :: "(string \<times> int) list" where
  "allergy_type_map = [(''None'', 0), (''Dust'', 1), (''Pollen'', 2), (''Pets'', 3), (''Other'', 4)]"

definition occ_map :: "(string \<times> int) list" where
  "occ_map = [(''Home/Office'', 0), (''Outdoor/Traffic'', 1), (''Factory/Heavy'', 2)]"

text \<open>Lines 98 to 133: the five patient features, from the profile or the default one.\<close>

definition patient_features :: "builtins \<Rightarrow> pyval \<Rightarrow> error + (real \<times> real \<times> real \<times> real \<times> real)" where
  "patient_features B patient0 =
     (let patient = (if truthy patient0 then patient0 else PDict default_patient) in
      sum_bind (attr_get patient ''age'' (PInt 21)) (\<lambda>age_val.
      sum_bind (py_float B age_val) (\<lambda>age.
      sum_bind (attr_get patient ''smoker'' (PStr ''Non-smoker'')) (\<lambda>smoker_str.
      sum_bind (map_get smoker_map smoker_str 0) (\<lambda>smoker_level.
      sum_bind (attr_get patient ''allergy_present'' (PStr ''No'')) (\<lambda>allergy_present_str.
      let allergy_present = (if allergy_present_str = PStr ''Yes'' then 1 else 0) in
      sum_bind (attr_get patient ''allergy_type'' (PStr ''None'')) (\<lambda>allergy_type_str.
      sum_bind (map_get allergy_type_map allergy_type_str 0) (\<lambda>allergy_type.
      sum_bind (attr_get patient ''occupation'' (PStr ''Home/Office'')) (\<lambda>occupation_str.
      sum_bind (map_get occ_map occupation_str 0) (\<lambda>occupation_risk.
      Inr (age, of_int smoker_level, allergy_present, of_int allergy_type,
           of_int occupation_risk)))))))))))"

text \<open>Lines 91 to 146: the derived-feature map.\<close>

definition feat_map :: "builtins \<Rightarrow> pydict \<Rightarrow> pyval \<Rightarrow> error + (string \<times> real) list" where
  "feat_map B sensor patient =
     sum_bind (sensor_features B sensor) (\<lambda>(hum, temp, mq2, mq135, dust).
     sum_bind (patient_features B patient)
       (\<lambda>(age, smoker_level, allergy_present, allergy_type, occupation_risk).
     Inr [(''humidity'', hum),
          (''temperature'', temp),
          (''mq2'', mq2),
          (''mq135'', mq135),
          (''dust'', dust),
          (''age'', age),
          (''smoker_level'', smoker_level),
          (''allergy_present'', allergy_present),
          (''allergy_type'', allergy_type),
          (''occupation_risk'', occupation_risk)]))"

text \<open>The ten names of the map, lines 136 to 145.\<close>

definition feature_names :: "string list" where
  "feature_names =
     [''humidity'', ''temperature'', ''mq2'', ''mq135'', ''dust'', ''age'',
      ''smoker_level'', ''allergy_present'', ''allergy_type'', ''occupation_risk'']"

text \<open>Line 148: one entry per schema name, in schema order, \<open>0\<close> for a name not in the map.\<close>

definition feature_vector :: "string list \<Rightarrow> (string \<times> real) list \<Rightarrow> real list" where
  "feature_vector schema fm = map (\<lambda>f. case map_of fm f of None \<Rightarrow> 0 | Some v \<Rightarrow> v) schema"

text \<open>Lines 91 to 148: the vector handed to the classifier.\<close>

definition build_vector :: "builtins \<Rightarrow> string list \<Rightarrow> pydict \<Rightarrow> pyval \<Rightarrow> error + real list" where
  "build_vector B schema sensor patient =
     sum_bind (feat_map B sensor patient) (\<lambda>fm. Inr (feature_vector schema fm))"

text \<open>Lines 153 to 158: the thresholds.\<close>

definition risk_label :: "real \<Rightarrow> string" where
  "risk_label prob =
     (if prob < 0.35 then ''LOW RISK''
      else if prob < 0.65 then ''MEDIUM RISK''
      else ''HIGH RISK'')"

text \<open>
  The whole function. It reads the two globals and writes nothing: the state is
  returned as it was received.
\<close>

definition run_future_model ::
  "builtins \<Rightarrow> state \<Rightarrow> pydict \<Rightarrow> pyval \<Rightarrow> (error + real option \<times> string) \<times> state" where
  "run_future_model B st sensor patient =
     (case future_model st of
        None \<Rightarrow> (Inr (None, ''UNKNOWN''), st)
      | Some clf \<Rightarrow>
          if FEATURES_FUTURE st = [] then (Inr (None, ''UNKNOWN''), st)
          else
            (sum_bind (build_vector B (FEATURES_FUTURE st) sensor patient) (\<lambda>vec.
             sum_bind (clf vec) (\<lambda>prob.
             Inr (Some prob, risk_label prob))), st))"

section \<open>The sensor endpoint: \<^verbatim>\<open>api_sensor\<close>\<close>

text \<open>
  Lines 178 to 184. The payload is the decoded JSON body of the request; an empty or
  otherwise false body is replaced by the empty dictionary. The inner
  \<^verbatim>\<open>data.get("dust", 0)\<close> is evaluated before the outer lookup of \<^verbatim>\<open>dust_equiv\<close>.
\<close>

type_synonym fields = "real \<times> real \<times> int \<times> int \<times> real"

definition api_sensor_fields :: "builtins \<Rightarrow> pyval \<Rightarrow> error + fields" where
  "api_sensor_fields B payload =
     (let data = (if truthy payload then payload else PDict []) in
      sum_bind (attr_get data ''temperature'' (PInt 0)) (\<lambda>temp_val.
      sum_bind (py_float B temp_val) (\<lambda>temp.
      sum_bind (attr_get data ''humidity'' (PInt 0)) (\<lambda>hum_val.
      sum_bind (py_float B hum_val) (\<lambda>hum.
      sum_bind (attr_get data ''mq2'' (PInt 1)) (\<lambda>mq2_val.
      sum_bind (py_int B mq2_val) (\<lambda>mq2.
      sum_bind (attr_get data ''mq135'' (PInt 1)) (\<lambda>mq135_val.
      sum_bind (py_int B mq135_val) (\<lambda>mq135.
      sum_bind (attr_get data ''dust'' (PInt 0)) (\<lambda>dust_dflt.
      sum_bind (attr_get data ''dust_equiv'' dust_dflt) (\<lambda>dust_val.
      sum_bind (py_float B dust_val) (\<lambda>dust.
      Inr (temp, hum, mq2, mq135, dust)))))))))))))"

text \<open>Lines 189 to 196 and 204 to 210: the stored reading and the dictionary given to the model.\<close>

definition reading :: "string \<Rightarrow> fields \<Rightarrow> pyval" where
  "reading ts flds =
     (case flds of (temp, hum, mq2, mq135, dust) \<Rightarrow>
        PDict [(''timestamp'', PStr ts),
               (''temperature'', PFloat temp),
               (''humidity'', PFloat hum),
               (''mq2'', PInt mq2),
               (''mq135'', PInt mq135),
               (''dust_equiv'', PFloat dust)])"

definition sensor_dict :: "fields \<Rightarrow> pydict" where
  "sensor_dict flds =
     (case flds of (temp, hum, mq2, mq135, dust) \<Rightarrow>
        [(''temperature'', PFloat temp),
         (''humidity'', PFloat hum),
         (''mq2'', PInt mq2),
         (''mq135'', PInt mq135),
         (''dust_equiv'', PFloat dust)])"

text \<open>The formatted string \<^verbatim>\<open>f"T={temp}, H={hum}, MQ2={mq2}, MQ135={mq135}, Dust={dust}"\<close>.\<close>

definition details :: "builtins \<Rightarrow> fields \<Rightarrow> string" where
  "details B flds =
     (case flds of (temp, hum, mq2, mq135, dust) \<Rightarrow>
        ''T='' @ str_of_float B temp @ '', H='' @ str_of_float B hum
        @ '', MQ2='' @ str_of_int B mq2 @ '', MQ135='' @ str_of_int B mq135
        @ '', Dust='' @ str_of_float B dust)"

definition attack_record :: "builtins \<Rightarrow> string \<Rightarrow> fields \<Rightarrow> real \<Rightarrow> string \<Rightarrow> pyval" where
  "attack_record B ts flds prob label =
     PDict [(''timestamp'', PStr ts),
            (''probability'', PFloat prob),
            (''risk_label'', PStr label),
            (''details'', PStr (details B flds))]"

definition alert_record :: "builtins \<Rightarrow> string \<Rightarrow> fields \<Rightarrow> pyval" where
  "alert_record B ts flds =
     PDict [(''timestamp'', PStr ts),
            (''message'', PStr ''HIGH Immediate Asthma Risk Detected!''),
            (''details'', PStr (details B flds))]"

text \<open>
  Lines 214 to 230: the attack and the alert are logged under one condition. An
  exception leaves the files as they were written up to that point.
\<close>

definition log_high_risk ::
  "builtins \<Rightarrow> string \<Rightarrow> fields \<Rightarrow> real option \<Rightarrow> string \<Rightarrow> state \<Rightarrow> (error + unit) \<times> state" where
  "log_high_risk B ts flds prob label st =
     (case prob of
        None \<Rightarrow> (Inr (), st)
      | Some p \<Rightarrow>
          if str_in ''HIGH'' label then
            (case py_append (load_json st ATTACKS_FILE (PList [])) (attack_record B ts flds p label) of
               Inl e \<Rightarrow> (Inl e, st)
             | Inr attacks \<Rightarrow>
                 let st1 = save_json st ATTACKS_FILE attacks in
                 (case py_append (load_json st1 ALERTS_FILE (PList [])) (alert_record B ts flds) of
                    Inl e \<Rightarrow> (Inl e, st1)
                  | Inr alerts \<Rightarrow> (Inr (), save_json st1 ALERTS_FILE alerts)))
          else (Inr (), st))"

text \<open>The JSON object of the reply.\<close>

record response =
  resp_status :: string
  resp_timestamp :: string
  resp_probability :: "real option"
  resp_label :: string

text \<open>
  The endpoint, lines 178 to 237. \<open>ts\<close> is the clock reading
  \<^verbatim>\<open>datetime.datetime.now().isoformat(timespec="seconds")\<close>.
\<close>

definition api_sensor :: "builtins \<Rightarrow> string \<Rightarrow> pyval \<Rightarrow> state \<Rightarrow> (error + response) \<times> state" where
  "api_sensor B ts payload st =
     (case api_sensor_fields B payload of
        Inl e \<Rightarrow> (Inl e, st)
      | Inr flds \<Rightarrow>
          (case py_append (load_json st READINGS_FILE (PList [])) (reading ts flds) of
             Inl e \<Rightarrow> (Inl e, st)
           | Inr readings \<Rightarrow>
               let st1 = save_json st READINGS_FILE readings;
                   patient = load_json st1 PATIENT_FILE (PDict default_patient);
                   (res, st2) = run_future_model B st1 (sensor_dict flds) patient
               in (case res of
                     Inl e \<Rightarrow> (Inl e, st2)
                   | Inr (prob, label) \<Rightarrow>
                       (case log_high_risk B ts flds prob label st2 of
                          (Inl e, st3) \<Rightarrow> (Inl e, st3)
                        | (Inr u, st3) \<Rightarrow>
                            (Inr \<lparr>resp_status = ''ok'', resp_timestamp = ts,
                                  resp_probability = prob, resp_label = label\<rparr>, st3)))))"

section \<open>Well-typed inputs\<close>

text \<open>
  The inputs the application produces itself: a sensor dictionary whose fields, where
  present, are numbers, and a profile that is absent or a dictionary whose age, where
  present, is a number and whose categorical fields, where present, are strings. A
  number is a float, or an integer that a float holds exactly (below \<open>2 ^ 53\<close> in
  magnitude).
\<close>

fun is_num :: "pyval \<Rightarrow> bool" where
  "is_num (PInt i) = (\<bar>i\<bar> < 2 ^ 53)"
| "is_num (PFloat r) = True"
| "is_num v = False"

fun is_str :: "pyval \<Rightarrow> bool" where
  "is_str (PStr s) = True"
| "is_str v = False"

definition num_field :: "pydict \<Rightarrow> string \<Rightarrow> bool" where
  "num_field d k = (case map_of d k of None \<Rightarrow> True | Some v \<Rightarrow> is_num v)"

definition str_field :: "pydict \<Rightarrow> string \<Rightarrow> bool" where
  "str_field d k = (case map_of d k of None \<Rightarrow> True | Some v \<Rightarrow> is_str v)"

definition sensor_ok :: "pydict \<Rightarrow> bool" where
  "sensor_ok sensor =
     (num_field sensor ''humidity'' \<and> num_field sensor ''temperature'' \<and>
      num_field sensor ''mq2'' \<and> num_field sensor ''mq135'' \<and>
      num_field sensor ''dust_equiv'' \<and> num_field sensor ''dust'')"

fun patient_ok :: "pyval \<Rightarrow> bool" where
  "patient_ok PNone = True"
| "patient_ok (PDict d) =
     (num_field d ''age'' \<and> str_field d ''smoker'' \<and> str_field d ''allergy_present'' \<and>
      str_field d ''allergy_type'' \<and> str_field d ''occupation'')"
| "patient_ok v = False"

section \<open>Concrete inputs\<close>

text \<open>
  Inputs at which the results below are evaluated: conversions that read the
  string \<^verbatim>\<open>"7"\<close> only; a store with no file, with a classifier of fixed answer or with
  none; a classifier that answers on one vector only and raises on every other; and a
  store whose three logs already hold an entry each.
\<close>

definition some_builtins :: builtins where
  "some_builtins =
     \<lparr>float_of_str = (\<lambda>s. if s = ''7'' then Some 7 else None),
      int_of_str = (\<lambda>s. if s = ''7'' then Some 7 else None),
      str_of_float = (\<lambda>r. ''?''),
      str_of_int = (\<lambda>i. ''?'')\<rparr>"

definition no_files :: "path \<Rightarrow> pyval option" where
  "no_files = (\<lambda>p. None)"

definition const_state :: "real \<Rightarrow> string list \<Rightarrow> state" where
  "const_state p schema =
     \<lparr>future_model = Some (\<lambda>vec. Inr p), FEATURES_FUTURE = schema, files = no_files\<rparr>"

definition no_model_state :: "string list \<Rightarrow> state" where
  "no_model_state schema = \<lparr>future_model = None, FEATURES_FUTURE = schema, files = no_files\<rparr>"

definition probe_state :: "real list \<Rightarrow> real \<Rightarrow> string list \<Rightarrow> state" where
  "probe_state expected p schema =
     \<lparr>future_model = Some (\<lambda>vec. if vec = expected then Inr p else Inl ModelError),
      FEATURES_FUTURE = schema, files = no_files\<rparr>"

definition old_files :: "path \<Rightarrow> pyval option" where
  "old_files =
     no_files(READINGS_FILE := Some (PList [PStr ''old reading'']),
              ATTACKS_FILE := Some (PList [PStr ''old attack'']),
              ALERTS_FILE := Some (PList [PStr ''old alert'']))"

definition logged_state :: "real \<Rightarrow> string list \<Rightarrow> state" where
  "logged_state p schema =
     \<lparr>future_model = Some (\<lambda>vec. Inr p), FEATURES_FUTURE = schema, files = old_files\<rparr>"

section \<open>Basic facts\<close>

lemma sum_bind_Inr_iff: "sum_bind m f = Inr y \<longleftrightarrow> (\<exists>x. m = Inr x \<and> f x = Inr y)"
  by (cases m) (simp_all add: sum_bind_def)

lemma sum_bind_Inr [simp]: "sum_bind (Inr x) f = f x"
  by (simp add: sum_bind_def)

lemma sum_bind_Inl [simp]: "sum_bind (Inl e) f = Inl e"
  by (simp add: sum_bind_def)

text \<open>Conversion of an integer to a float: exact on 53 bits, OverflowError from \<open>2 ^ 1024\<close> on.\<close>

lemma bit_length_le_iff: "bit_length n \<le> k \<longleftrightarrow> n < 2 ^ k"
proof (induction n arbitrary: k rule: bit_length.induct)
  case (1 n)
  show ?case
  proof (cases "n = 0")
    case True
    then show ?thesis by (simp add: bit_length.simps)
  next
    case False
    show ?thesis
    proof (cases k)
      case 0
      with False show ?thesis by (simp add: bit_length.simps [of n])
    next
      case (Suc j)
      have "bit_length n \<le> Suc j \<longleftrightarrow> bit_length (n div 2) \<le> j"
        using False by (simp add: bit_length.simps [of n])
      also have "\<dots> \<longleftrightarrow> n div 2 < 2 ^ j"
        using False by (rule "1.IH")
      also have "\<dots> \<longleftrightarrow> n < 2 ^ Suc j"
        by auto
      finally show ?thesis using Suc by simp
    qed
  qed
qed

lemma float_of_int_exact [simp]: "\<bar>i\<bar> < 2 ^ 53 \<Longrightarrow> float_of_int i = Inr (of_int i)"
proof -
  assume "\<bar>i\<bar> < 2 ^ 53"
  then have "nat \<bar>i\<bar> < 2 ^ 53" by (simp add: nat_less_iff)
  then have "bit_length (nat \<bar>i\<bar>) \<le> 53" by (simp only: bit_length_le_iff)
  then show ?thesis by (simp add: float_of_int_def Let_def)
qed

lemma float_of_int_overflow:
  assumes "2 ^ 1024 \<le> \<bar>i\<bar>"
  shows "float_of_int i = Inl OverflowError"
proof -
  define n where "n = nat \<bar>i\<bar>"
  define len where "len = bit_length n"
  define s where "s = len - 53"
  have n: "2 ^ 1024 \<le> n"
    using assms by (simp add: n_def le_nat_iff)
  have "\<not> n < 2 ^ 1024" using n by simp
  then have len: "1024 < len"
    unfolding len_def using bit_length_le_iff [of n 1024] by simp
  have "\<not> bit_length n \<le> len - 1" using len by (simp add: len_def)
  then have low: "2 ^ (len - 1) \<le> n"
    using bit_length_le_iff [of n "len - 1"] by simp
  have "len - 1 = 52 + s"
    using len by (simp add: s_def)
  then have split: "(2::nat) ^ (len - 1) = 2 ^ 52 * 2 ^ s"
    by (simp only: power_add)
  have "2 ^ 52 * 2 ^ s div 2 ^ s \<le> n div 2 ^ s"
    using low unfolding split by (rule div_le_mono)
  then have q: "(2::nat) ^ 52 \<le> n div 2 ^ s" by simp
  define q' where
    "q' = (if 2 ^ (s - 1) < n mod 2 ^ s \<or> (n mod 2 ^ s = 2 ^ (s - 1) \<and> odd (n div 2 ^ s))
           then n div 2 ^ s + 1 else n div 2 ^ s)"
  have "n div 2 ^ s \<le> q'" by (simp add: q'_def)
  with q have "2 ^ 52 \<le> q'" by (rule order_trans)
  then have "2 ^ 52 * 2 ^ s \<le> q' * 2 ^ s" by (rule mult_le_mono1)
  moreover have "(2::nat) ^ 1024 \<le> 2 ^ (len - 1)"
    using len by (intro power_increasing) simp_all
  ultimately have big: "2 ^ 1024 \<le> q' * 2 ^ s"
    unfolding split by (rule order_trans [rotated])
  have long: "\<not> len \<le> 53" using len by simp
  have "float_of_int i =
      (if len \<le> 53 then Inr (of_int i)
       else if 2 ^ 1024 \<le> q' * 2 ^ s then Inl OverflowError
       else Inr (if i < 0 then - of_nat (q' * 2 ^ s) else of_nat (q' * 2 ^ s)))"
    unfolding float_of_int_def Let_def n_def len_def s_def q'_def ..
  then show ?thesis
    using long big by (simp only: if_False if_True)
qed

lemma py_float_int_exact: "\<bar>i\<bar> < 2 ^ 53 \<Longrightarrow> py_float B (PInt i) = Inr (of_int i)"
  by simp

lemma py_float_int_overflow: "2 ^ 1024 \<le> \<bar>i\<bar> \<Longrightarrow> py_float B (PInt i) = Inl OverflowError"
  by (simp add: float_of_int_overflow)

text \<open>On well-typed inputs no conversion raises.\<close>

lemma py_float_num: "is_num v \<Longrightarrow> \<exists>r. py_float B v = Inr r"
  by (cases v) simp_all

lemma py_float_num_field: "num_field d k \<Longrightarrow> is_num dflt \<Longrightarrow> \<exists>r. py_float B (dict_get d k dflt) = Inr r"
  by (auto simp: num_field_def dict_get_def py_float_num split: option.splits)

lemma is_num_dict_get: "num_field d k \<Longrightarrow> is_num dflt \<Longrightarrow> is_num (dict_get d k dflt)"
  by (auto simp: num_field_def dict_get_def split: option.splits)

lemma map_get_str: "is_str v \<Longrightarrow> \<exists>i. map_get m v dflt = Inr i"
  by (cases v) simp_all

lemma map_get_str_field: "str_field d k \<Longrightarrow> is_str dflt \<Longrightarrow> \<exists>i. map_get m (dict_get d k dflt) n = Inr i"
  by (auto simp: str_field_def dict_get_def map_get_str split: option.splits)

lemma sensor_features_returns:
  assumes "sensor_ok sensor"
  shows "\<exists>x. sensor_features B sensor = Inr x"
proof -
  from assms obtain hum where 1: "py_float B (dict_get sensor ''humidity'' (PInt 0)) = Inr hum"
    using py_float_num_field [of sensor "''humidity''" "PInt 0" B] by (auto simp: sensor_ok_def)
  from assms obtain temp where 2: "py_float B (dict_get sensor ''temperature'' (PInt 0)) = Inr temp"
    using py_float_num_field [of sensor "''temperature''" "PInt 0" B] by (auto simp: sensor_ok_def)
  from assms obtain mq2 where 3: "py_float B (dict_get sensor ''mq2'' (PInt 0)) = Inr mq2"
    using py_float_num_field [of sensor "''mq2''" "PInt 0" B] by (auto simp: sensor_ok_def)
  from assms obtain mq135 where 4: "py_float B (dict_get sensor ''mq135'' (PInt 0)) = Inr mq135"
    using py_float_num_field [of sensor "''mq135''" "PInt 0" B] by (auto simp: sensor_ok_def)
  from assms have "is_num (dict_get sensor ''dust'' (PInt 0))"
    by (simp add: sensor_ok_def is_num_dict_get)
  with assms obtain dust where 5:
    "py_float B (dict_get sensor ''dust_equiv'' (dict_get sensor ''dust'' (PInt 0))) = Inr dust"
    using py_float_num_field [of sensor "''dust_equiv''" "dict_get sensor ''dust'' (PInt 0)" B]
    by (auto simp: sensor_ok_def)
  show ?thesis by (simp add: sensor_features_def 1 2 3 4 5)
qed

lemma patient_features_dict_returns:
  assumes "num_field d ''age''" "str_field d ''smoker''" "str_field d ''allergy_present''"
    "str_field d ''allergy_type''" "str_field d ''occupation''"
  shows "\<exists>x. patient_features B (PDict d) = Inr x"
proof (cases "d = []")
  case True
  then show ?thesis
    by (simp add: patient_features_def default_patient_def dict_get_def smoker_map_def
        allergy_type_map_def occ_map_def)
next
  case False
  obtain age where 1: "py_float B (dict_get d ''age'' (PInt 21)) = Inr age"
    using py_float_num_field [of d "''age''" "PInt 21" B] assms by auto
  obtain s where 2: "map_get smoker_map (dict_get d ''smoker'' (PStr ''Non-smoker'')) 0 = Inr s"
    using map_get_str_field [of d "''smoker''"] assms by fastforce
  obtain t where 3: "map_get allergy_type_map (dict_get d ''allergy_type'' (PStr ''None'')) 0 = Inr t"
    using map_get_str_field [of d "''allergy_type''"] assms by fastforce
  obtain r where 4: "map_get occ_map (dict_get d ''occupation'' (PStr ''Home/Office'')) 0 = Inr r"
    using map_get_str_field [of d "''occupation''"] assms by fastforce
  show ?thesis using False by (simp add: patient_features_def 1 2 3 4)
qed

lemma patient_features_returns:
  assumes "patient_ok patient"
  shows "\<exists>x. patient_features B patient = Inr x"
proof (cases patient)
  case PNone
  then show ?thesis
    by (simp add: patient_features_def default_patient_def dict_get_def smoker_map_def
        allergy_type_map_def occ_map_def)
next
  case (PDict d)
  with assms show ?thesis using patient_features_dict_returns [of d B] by simp
qed (use assms in simp_all)

lemma feat_map_returns:
  assumes "sensor_ok sensor" "patient_ok patient"
  shows "\<exists>fm. feat_map B sensor patient = Inr fm"
proof -
  obtain x where x: "sensor_features B sensor = Inr x"
    using sensor_features_returns [OF assms(1)] by blast
  obtain y where y: "patient_features B patient = Inr y"
    using patient_features_returns [OF assms(2)] by blast
  show ?thesis by (simp add: feat_map_def x y split: prod.splits)
qed

lemma build_vector_returns:
  assumes "sensor_ok sensor" "patient_ok patient"
  shows "\<exists>vec. build_vector B schema sensor patient = Inr vec"
  using feat_map_returns [OF assms, of B] by (auto simp: build_vector_def)

section \<open>The thresholds\<close>

text \<open>
  C1. Whatever probability \<open>p\<close> the classifier returns for the vector,
  \<^verbatim>\<open>run_future_model\<close> returns \<open>p\<close> with the label LOW RISK when \<open>p < 0.35\<close>, MEDIUM RISK
  when \<open>0.35 \<le> p < 0.65\<close> and HIGH RISK when \<open>p \<ge> 0.65\<close>. The witness evaluates the
  four boundary values 0.34999, 0.35, 0.64999 and 0.65.
\<close>

theorem run_future_model_thresholds:
  assumes "future_model st = Some clf" and "FEATURES_FUTURE st \<noteq> []"
    and "build_vector B (FEATURES_FUTURE st) sensor patient = Inr vec"
    and "clf vec = Inr p"
  shows "\<exists>l. fst (run_future_model B st sensor patient) = Inr (Some p, l)
           \<and> (p < 0.35 \<longrightarrow> l = ''LOW RISK'')
           \<and> (0.35 \<le> p \<and> p < 0.65 \<longrightarrow> l = ''MEDIUM RISK'')
           \<and> (0.65 \<le> p \<longrightarrow> l = ''HIGH RISK'')"
  using assms by (simp add: run_future_model_def risk_label_def)

theorem run_future_model_thresholds_witness:
  "fst (run_future_model some_builtins (const_state 0.34999 [''mq2'']) [] PNone) = Inr (Some 0.34999, ''LOW RISK'')
 \<and> fst (run_future_model some_builtins (const_state 0.35 [''mq2'']) [] PNone) = Inr (Some 0.35, ''MEDIUM RISK'')
 \<and> fst (run_future_model some_builtins (const_state 0.64999 [''mq2'']) [] PNone) = Inr (Some 0.64999, ''MEDIUM RISK'')
 \<and> fst (run_future_model some_builtins (const_state 0.65 [''mq2'']) [] PNone) = Inr (Some 0.65, ''HIGH RISK'')"
proof -
  have v: "build_vector some_builtins (FEATURES_FUTURE (const_state p [''mq2''])) [] PNone = Inr [0]" for p
    by (simp add: build_vector_def feat_map_def sensor_features_def patient_features_def
        dict_get_def default_patient_def smoker_map_def allergy_type_map_def occ_map_def
        feature_vector_def const_state_def)
  have m: "future_model (const_state p [''mq2'']) = Some (\<lambda>vec. Inr p)" for p
    by (simp add: const_state_def)
  have s: "FEATURES_FUTURE (const_state p [''mq2'']) \<noteq> []" for p
    by (simp add: const_state_def)
  from run_future_model_thresholds [OF m [of "0.34999"] s v refl]
       run_future_model_thresholds [OF m [of "0.35"] s v refl]
       run_future_model_thresholds [OF m [of "0.64999"] s v refl]
       run_future_model_thresholds [OF m [of "0.65"] s v refl]
  show ?thesis by auto
qed

section \<open>The degraded result\<close>

text \<open>
  C3. When the classifier is unavailable (\<^verbatim>\<open>future_model is None\<close>) or the schema is
  empty, \<^verbatim>\<open>run_future_model\<close> returns the pair of an absent probability and the label
  UNKNOWN, whatever the sensor and patient arguments are; no exception is raised.
\<close>

theorem run_future_model_unknown:
  "future_model st = None \<or> FEATURES_FUTURE st = [] \<Longrightarrow>
   fst (run_future_model B st sensor patient) = Inr (None, ''UNKNOWN'')"
  by (auto simp: run_future_model_def split: option.splits)

theorem run_future_model_unknown_witness:
  "(future_model (no_model_state [''mq2'']) = None \<or> FEATURES_FUTURE (no_model_state [''mq2'']) = [])
   \<and> fst (run_future_model some_builtins (no_model_state [''mq2''])
             [(''humidity'', PStr ''abc'')] (PList [PInt 1])) = Inr (None, ''UNKNOWN'')"
proof -
  have h: "future_model (no_model_state [''mq2'']) = None \<or> FEATURES_FUTURE (no_model_state [''mq2'']) = []"
    by (simp add: no_model_state_def)
  from run_future_model_unknown [OF h] show ?thesis
    using h by simp
qed

text \<open>
  C10. Every pair that \<^verbatim>\<open>run_future_model\<close> returns has an absent probability exactly
  when its label is UNKNOWN, and a present probability (a float, by its type) comes
  with one of the three risk labels. On well-typed inputs, with a classifier that
  answers, the function does return a pair.
\<close>

theorem run_future_model_result_shape:
  "(\<forall>prob label. fst (run_future_model B st sensor patient) = Inr (prob, label) \<longrightarrow>
      (prob = None \<longleftrightarrow> label = ''UNKNOWN'') \<and>
      (prob \<noteq> None \<longrightarrow> label \<in> {''LOW RISK'', ''MEDIUM RISK'', ''HIGH RISK''})) \<and>
   (sensor_ok sensor \<and> patient_ok patient \<and>
      (\<forall>clf vec. future_model st = Some clf \<longrightarrow> (\<exists>p. clf vec = Inr p)) \<longrightarrow>
      (\<exists>prob label. fst (run_future_model B st sensor patient) = Inr (prob, label)))"
proof (intro conjI allI impI)
  fix prob label
  assume "fst (run_future_model B st sensor patient) = Inr (prob, label)"
  then show "prob = None \<longleftrightarrow> label = ''UNKNOWN''"
    by (auto simp: run_future_model_def risk_label_def sum_bind_Inr_iff split: option.splits if_splits)
next
  fix prob label
  assume "fst (run_future_model B st sensor patient) = Inr (prob, label)" "prob \<noteq> None"
  then show "label \<in> {''LOW RISK'', ''MEDIUM RISK'', ''HIGH RISK''}"
    by (auto simp: run_future_model_def risk_label_def sum_bind_Inr_iff split: option.splits if_splits)
next
  assume a: "sensor_ok sensor \<and> patient_ok patient \<and>
      (\<forall>clf vec. future_model st = Some clf \<longrightarrow> (\<exists>p. clf vec = Inr p))"
  then obtain vec where v: "build_vector B (FEATURES_FUTURE st) sensor patient = Inr vec"
    using build_vector_returns by blast
  show "\<exists>prob label. fst (run_future_model B st sensor patient) = Inr (prob, label)"
  proof (cases "future_model st")
    case None
    then show ?thesis by (simp add: run_future_model_def)
  next
    case (Some clf)
    with a obtain p where "clf vec = Inr p" by blast
    with Some v show ?thesis by (simp add: run_future_model_def)
  qed
qed

theorem run_future_model_result_shape_witness:
  "sensor_ok [(''mq2'', PInt 7)] \<and> patient_ok PNone \<and>
   (\<exists>prob label.
      fst (run_future_model some_builtins (const_state 0.7 [''mq2'']) [(''mq2'', PInt 7)] PNone)
        = Inr (prob, label) \<and>
      prob \<noteq> None \<and> label \<noteq> ''UNKNOWN'' \<and>
      label \<in> {''LOW RISK'', ''MEDIUM RISK'', ''HIGH RISK''})"
proof -
  let ?r = "fst (run_future_model some_builtins (const_state 0.7 [''mq2'']) [(''mq2'', PInt 7)] PNone)"
  have ok: "sensor_ok [(''mq2'', PInt 7)]" "patient_ok PNone"
    by (simp_all add: sensor_ok_def num_field_def)
  have e: "?r = Inr (Some 0.7, ''HIGH RISK'')"
    by (simp add: run_future_model_def build_vector_def feat_map_def sensor_features_def
        patient_features_def dict_get_def default_patient_def smoker_map_def
        allergy_type_map_def occ_map_def feature_vector_def const_state_def risk_label_def)
  note T = run_future_model_result_shape
    [of some_builtins "const_state 0.7 [''mq2'']" "[(''mq2'', PInt 7)]" PNone]
  note S = T [THEN conjunct1, THEN spec, THEN spec, THEN mp, OF e]
  have "?r = Inr (Some 0.7, ''HIGH RISK'') \<and> Some (0.7::real) \<noteq> None \<and>
      ''HIGH RISK'' \<noteq> ''UNKNOWN'' \<and>
      ''HIGH RISK'' \<in> {''LOW RISK'', ''MEDIUM RISK'', ''HIGH RISK''}"
    using e S by simp
  then have "\<exists>prob label. ?r = Inr (prob, label) \<and> prob \<noteq> None \<and> label \<noteq> ''UNKNOWN'' \<and>
      label \<in> {''LOW RISK'', ''MEDIUM RISK'', ''HIGH RISK''}"
    by (intro exI)
  with ok show ?thesis by simp
qed

section \<open>The feature vector\<close>

lemma feat_map_Inr:
  "feat_map B sensor patient = Inr fm \<longleftrightarrow>
     (\<exists>hum temp mq2 mq135 dust age sl ap aty occ.
        sensor_features B sensor = Inr (hum, temp, mq2, mq135, dust) \<and>
        patient_features B patient = Inr (age, sl, ap, aty, occ) \<and>
        fm = [(''humidity'', hum), (''temperature'', temp), (''mq2'', mq2), (''mq135'', mq135),
              (''dust'', dust), (''age'', age), (''smoker_level'', sl), (''allergy_present'', ap),
              (''allergy_type'', aty), (''occupation_risk'', occ)])"
  by (auto simp: feat_map_def sum_bind_Inr_iff)

lemma feat_map_names: "feat_map B sensor patient = Inr fm \<Longrightarrow> map fst fm = feature_names"
  by (auto simp: feat_map_Inr feature_names_def)

lemma sensor_features_Inr:
  "sensor_features B sensor = Inr (hum, temp, mq2, mq135, dust) \<longleftrightarrow>
     py_float B (dict_get sensor ''humidity'' (PInt 0)) = Inr hum \<and>
     py_float B (dict_get sensor ''temperature'' (PInt 0)) = Inr temp \<and>
     py_float B (dict_get sensor ''mq2'' (PInt 0)) = Inr mq2 \<and>
     py_float B (dict_get sensor ''mq135'' (PInt 0)) = Inr mq135 \<and>
     py_float B (dict_get sensor ''dust_equiv'' (dict_get sensor ''dust'' (PInt 0))) = Inr dust"
  by (auto simp: sensor_features_def sum_bind_Inr_iff)

lemma dict_get_default_patient:
  "dict_get default_patient ''age'' (PInt 21) = PInt 21"
  "dict_get default_patient ''smoker'' (PStr ''Non-smoker'') = PStr ''Non-smoker''"
  "dict_get default_patient ''allergy_present'' (PStr ''No'') = PStr ''No''"
  "dict_get default_patient ''allergy_type'' (PStr ''None'') = PStr ''None''"
  "dict_get default_patient ''occupation'' (PStr ''Home/Office'') = PStr ''Home/Office''"
  by (simp_all add: dict_get_def default_patient_def)

lemma patient_features_default:
  "\<not> truthy patient \<Longrightarrow> patient_features B patient = Inr (21, 0, 0, 0, 0)"
  by (simp add: patient_features_def dict_get_default_patient smoker_map_def
      allergy_type_map_def occ_map_def)

lemma patient_features_dict_Inr:
  "patient_features B (PDict d) = Inr (age, sl, ap, aty, occ) \<longleftrightarrow>
     py_float B (dict_get d ''age'' (PInt 21)) = Inr age \<and>
     (\<exists>i. map_get smoker_map (dict_get d ''smoker'' (PStr ''Non-smoker'')) 0 = Inr i \<and> sl = of_int i) \<and>
     ap = (if dict_get d ''allergy_present'' (PStr ''No'') = PStr ''Yes'' then 1 else 0) \<and>
     (\<exists>i. map_get allergy_type_map (dict_get d ''allergy_type'' (PStr ''None'')) 0 = Inr i \<and> aty = of_int i) \<and>
     (\<exists>i. map_get occ_map (dict_get d ''occupation'' (PStr ''Home/Office'')) 0 = Inr i \<and> occ = of_int i)"
proof (cases "d = []")
  case True
  then show ?thesis
    by (auto simp: patient_features_default dict_get_def smoker_map_def allergy_type_map_def
        occ_map_def)
next
  case False
  then show ?thesis
    by (auto simp: patient_features_def sum_bind_Inr_iff Let_def)
qed

lemma feature_vector_length: "length (feature_vector schema fm) = length schema"
  by (simp add: feature_vector_def)

lemma feature_vector_nth:
  "i < length schema \<Longrightarrow>
   feature_vector schema fm ! i = (case map_of fm (schema ! i) of None \<Rightarrow> 0 | Some v \<Rightarrow> v)"
  by (simp add: feature_vector_def)

lemma build_vector_Inr:
  "build_vector B schema sensor patient = Inr vec \<longleftrightarrow>
     (\<exists>fm. feat_map B sensor patient = Inr fm \<and> vec = feature_vector schema fm)"
  by (auto simp: build_vector_def sum_bind_Inr_iff)

lemma map_of_unrecognized:
  "map fst fm = feature_names \<Longrightarrow> f \<notin> set feature_names \<Longrightarrow> map_of fm f = None"
  by (metis map_of_eq_None_iff set_map)



section \<open>The categorical encodings\<close>

lemma smoker_level_enc:
  assumes "map_get smoker_map (dict_get d ''smoker'' (PStr ''Non-smoker'')) 0 = Inr i"
  shows "map_of d ''smoker'' = Some (PStr ''Non-smoker'') \<Longrightarrow> i = 0"
    and "map_of d ''smoker'' = Some (PStr ''Passive smoker'') \<Longrightarrow> i = 1"
    and "map_of d ''smoker'' = Some (PStr ''Active smoker'') \<Longrightarrow> i = 2"
    and "map_of d ''smoker'' = None \<Longrightarrow> i = 0"
    and "map_of d ''smoker'' = Some (PStr s) \<Longrightarrow> s \<noteq> ''Non-smoker'' \<Longrightarrow>
         s \<noteq> ''Passive smoker'' \<Longrightarrow> s \<noteq> ''Active smoker'' \<Longrightarrow> i = 0"
  using assms by (simp_all add: dict_get_def smoker_map_def)

lemma allergy_type_enc:
  assumes "map_get allergy_type_map (dict_get d ''allergy_type'' (PStr ''None'')) 0 = Inr i"
  shows "map_of d ''allergy_type'' = Some (PStr ''None'') \<Longrightarrow> i = 0"
    and "map_of d ''allergy_type'' = Some (PStr ''Dust'') \<Longrightarrow> i = 1"
    and "map_of d ''allergy_type'' = Some (PStr ''Pollen'') \<Longrightarrow> i = 2"
    and "map_of d ''allergy_type'' = Some (PStr ''Pets'') \<Longrightarrow> i = 3"
    and "map_of d ''allergy_type'' = Some (PStr ''Other'') \<Longrightarrow> i = 4"
    and "map_of d ''allergy_type'' = None \<Longrightarrow> i = 0"
    and "map_of d ''allergy_type'' = Some (PStr s) \<Longrightarrow> s \<noteq> ''None'' \<Longrightarrow> s \<noteq> ''Dust'' \<Longrightarrow>
         s \<noteq> ''Pollen'' \<Longrightarrow> s \<noteq> ''Pets'' \<Longrightarrow> s \<noteq> ''Other'' \<Longrightarrow> i = 0"
  using assms by (simp_all add: dict_get_def allergy_type_map_def)

lemma occupation_enc:
  assumes "map_get occ_map (dict_get d ''occupation'' (PStr ''Home/Office'')) 0 = Inr i"
  shows "map_of d ''occupation'' = Some (PStr ''Home/Office'') \<Longrightarrow> i = 0"
    and "map_of d ''occupation'' = Some (PStr ''Outdoor/Traffic'') \<Longrightarrow> i = 1"
    and "map_of d ''occupation'' = Some (PStr ''Factory/Heavy'') \<Longrightarrow> i = 2"
    and "map_of d ''occupation'' = None \<Longrightarrow> i = 0"
    and "map_of d ''occupation'' = Some (PStr s) \<Longrightarrow> s \<noteq> ''Home/Office'' \<Longrightarrow>
         s \<noteq> ''Outdoor/Traffic'' \<Longrightarrow> s \<noteq> ''Factory/Heavy'' \<Longrightarrow> i = 0"
  using assms by (simp_all add: dict_get_def occ_map_def)

lemma allergy_present_enc:
  "(if dict_get d ''allergy_present'' (PStr ''No'') = PStr ''Yes'' then 1 else 0 :: real) =
   (if map_of d ''allergy_present'' = Some (PStr ''Yes'') then 1 else 0)"
  by (simp add: dict_get_def split: option.splits)

lemma feat_map_dict_Inr:
  assumes "feat_map B sensor (PDict d) = Inr fm"
  obtains i j k where
    "map_get smoker_map (dict_get d ''smoker'' (PStr ''Non-smoker'')) 0 = Inr i"
    "map_get allergy_type_map (dict_get d ''allergy_type'' (PStr ''None'')) 0 = Inr j"
    "map_get occ_map (dict_get d ''occupation'' (PStr ''Home/Office'')) 0 = Inr k"
    "map_of fm ''smoker_level'' = Some (of_int i)"
    "map_of fm ''allergy_present'' =
       Some (if map_of d ''allergy_present'' = Some (PStr ''Yes'') then 1 else 0)"
    "map_of fm ''allergy_type'' = Some (of_int j)"
    "map_of fm ''occupation_risk'' = Some (of_int k)"
proof -
  from assms obtain hum temp mq2 mq135 dust age sl ap aty occ where
    p: "patient_features B (PDict d) = Inr (age, sl, ap, aty, occ)" and
    f: "fm = [(''humidity'', hum), (''temperature'', temp), (''mq2'', mq2), (''mq135'', mq135),
              (''dust'', dust), (''age'', age), (''smoker_level'', sl), (''allergy_present'', ap),
              (''allergy_type'', aty), (''occupation_risk'', occ)]"
    by (auto simp: feat_map_Inr)
  from p obtain i j k where
    "map_get smoker_map (dict_get d ''smoker'' (PStr ''Non-smoker'')) 0 = Inr i" "sl = of_int i"
    "map_get allergy_type_map (dict_get d ''allergy_type'' (PStr ''None'')) 0 = Inr j" "aty = of_int j"
    "map_get occ_map (dict_get d ''occupation'' (PStr ''Home/Office'')) 0 = Inr k" "occ = of_int k"
    "ap = (if map_of d ''allergy_present'' = Some (PStr ''Yes'') then 1 else 0)"
    unfolding patient_features_dict_Inr allergy_present_enc by blast
  then show ?thesis
    using that [of i j k] by (simp add: f)
qed

text \<open>
  C4. The categorical fields of a patient dictionary are encoded as: smoker
  Non-smoker 0, Passive smoker 1, Active smoker 2; allergy_present Yes 1 and anything
  else 0; allergy_type None 0, Dust 1, Pollen 2, Pets 3, Other 4; occupation
  Home/Office 0, Outdoor/Traffic 1, Factory/Heavy 2; every other string encodes to 0.
  No categorical string makes the encoding raise.
\<close>

theorem categorical_encoding:
  "(\<forall>fm. feat_map B sensor (PDict d) = Inr fm \<longrightarrow>
      (map_of d ''smoker'' = Some (PStr ''Non-smoker'') \<longrightarrow> map_of fm ''smoker_level'' = Some 0) \<and>
      (map_of d ''smoker'' = Some (PStr ''Passive smoker'') \<longrightarrow> map_of fm ''smoker_level'' = Some 1) \<and>
      (map_of d ''smoker'' = Some (PStr ''Active smoker'') \<longrightarrow> map_of fm ''smoker_level'' = Some 2) \<and>
      (\<forall>s. map_of d ''smoker'' = Some (PStr s) \<and> s \<noteq> ''Non-smoker'' \<and> s \<noteq> ''Passive smoker'' \<and>
           s \<noteq> ''Active smoker'' \<longrightarrow> map_of fm ''smoker_level'' = Some 0) \<and>
      (map_of d ''allergy_present'' = Some (PStr ''Yes'') \<longrightarrow> map_of fm ''allergy_present'' = Some 1) \<and>
      (map_of d ''allergy_present'' \<noteq> Some (PStr ''Yes'') \<longrightarrow> map_of fm ''allergy_present'' = Some 0) \<and>
      (map_of d ''allergy_type'' = Some (PStr ''None'') \<longrightarrow> map_of fm ''allergy_type'' = Some 0) \<and>
      (map_of d ''allergy_type'' = Some (PStr ''Dust'') \<longrightarrow> map_of fm ''allergy_type'' = Some 1) \<and>
      (map_of d ''allergy_type'' = Some (PStr ''Pollen'') \<longrightarrow> map_of fm ''allergy_type'' = Some 2) \<and>
      (map_of d ''allergy_type'' = Some (PStr ''Pets'') \<longrightarrow> map_of fm ''allergy_type'' = Some 3) \<and>
      (map_of d ''allergy_type'' = Some (PStr ''Other'') \<longrightarrow> map_of fm ''allergy_type'' = Some 4) \<and>
      (\<forall>s. map_of d ''allergy_type'' = Some (PStr s) \<and> s \<noteq> ''None'' \<and> s \<noteq> ''Dust'' \<and>
           s \<noteq> ''Pollen'' \<and> s \<noteq> ''Pets'' \<and> s \<noteq> ''Other'' \<longrightarrow> map_of fm ''allergy_type'' = Some 0) \<and>
      (map_of d ''occupation'' = Some (PStr ''Home/Office'') \<longrightarrow> map_of fm ''occupation_risk'' = Some 0) \<and>
      (map_of d ''occupation'' = Some (PStr ''Outdoor/Traffic'') \<longrightarrow> map_of fm ''occupation_risk'' = Some 1) \<and>
      (map_of d ''occupation'' = Some (PStr ''Factory/Heavy'') \<longrightarrow> map_of fm ''occupation_risk'' = Some 2) \<and>
      (\<forall>s. map_of d ''occupation'' = Some (PStr s) \<and> s \<noteq> ''Home/Office'' \<and>
           s \<noteq> ''Outdoor/Traffic'' \<and> s \<noteq> ''Factory/Heavy'' \<longrightarrow>
           map_of fm ''occupation_risk'' = Some 0)) \<and>
   (sensor_ok sensor \<and> patient_ok (PDict d) \<longrightarrow> (\<exists>fm. feat_map B sensor (PDict d) = Inr fm))"
proof (intro conjI allI impI)
  assume "sensor_ok sensor \<and> patient_ok (PDict d)"
  then show "\<exists>fm. feat_map B sensor (PDict d) = Inr fm"
    by (simp add: feat_map_returns)
qed (erule feat_map_dict_Inr;
     simp add: smoker_level_enc allergy_type_enc occupation_enc)+

theorem categorical_encoding_witness:
  "sensor_ok [] \<and>
   patient_ok (PDict [(''smoker'', PStr ''Vaper''), (''allergy_present'', PStr ''Yes''),
                      (''allergy_type'', PStr ''Pets''), (''occupation'', PStr ''Factory/Heavy'')]) \<and>
   (\<exists>fm. feat_map some_builtins []
            (PDict [(''smoker'', PStr ''Vaper''), (''allergy_present'', PStr ''Yes''),
                    (''allergy_type'', PStr ''Pets''), (''occupation'', PStr ''Factory/Heavy'')])
          = Inr fm \<and>
      map_of fm ''smoker_level'' = Some 0 \<and> map_of fm ''allergy_present'' = Some 1 \<and>
      map_of fm ''allergy_type'' = Some 3 \<and> map_of fm ''occupation_risk'' = Some 2)"
proof -
  let ?d = "[(''smoker'', PStr ''Vaper''), (''allergy_present'', PStr ''Yes''),
             (''allergy_type'', PStr ''Pets''), (''occupation'', PStr ''Factory/Heavy'')]"
  note T = categorical_encoding [of some_builtins "[]" ?d]
  have ok: "sensor_ok [] \<and> patient_ok (PDict ?d)"
    by (simp add: sensor_ok_def num_field_def str_field_def)
  from T [THEN conjunct2, THEN mp, OF ok]
  obtain fm where fm: "feat_map some_builtins [] (PDict ?d) = Inr fm"
    by blast
  note E = T [THEN conjunct1, THEN spec, THEN mp, OF fm]
  have 1: "map_of fm ''smoker_level'' = Some 0"
    using E [THEN conjunct2, THEN conjunct2, THEN conjunct2, THEN conjunct1, THEN spec, of "''Vaper''"]
    by simp
  have 2: "map_of fm ''allergy_present'' = Some 1"
    using E by simp
  have 3: "map_of fm ''allergy_type'' = Some 3"
    using E by simp
  have 4: "map_of fm ''occupation_risk'' = Some 2"
    using E by simp
  from fm 1 2 3 4 have "\<exists>fm. feat_map some_builtins [] (PDict ?d) = Inr fm \<and>
      map_of fm ''smoker_level'' = Some 0 \<and> map_of fm ''allergy_present'' = Some 1 \<and>
      map_of fm ''allergy_type'' = Some 3 \<and> map_of fm ''occupation_risk'' = Some 2"
    by blast
  with ok show ?thesis by blast
qed

section \<open>The default profile\<close>

text \<open>
  C6. With the patient argument absent, \<^verbatim>\<open>run_future_model\<close> derives the patient
  features from the fixed default profile (age 21, Non-smoker, allergy fields No and
  None, occupation Home/Office): the feature map it builds holds age 21 and the value 0
  under each of the four categorical names, next to the five sensor features; the
  vector read from that map is the one the classifier is called on; and the result is
  the result on the default profile itself.
\<close>

theorem run_future_model_absent_patient:
  "(\<forall>hum temp mq2 mq135 dust.
      sensor_features B sensor = Inr (hum, temp, mq2, mq135, dust) \<longrightarrow>
        feat_map B sensor PNone =
          Inr [(''humidity'', hum), (''temperature'', temp), (''mq2'', mq2), (''mq135'', mq135),
               (''dust'', dust), (''age'', 21), (''smoker_level'', 0), (''allergy_present'', 0),
               (''allergy_type'', 0), (''occupation_risk'', 0)] \<and>
        (\<forall>clf. future_model st = Some clf \<and> FEATURES_FUTURE st \<noteq> [] \<longrightarrow>
           fst (run_future_model B st sensor PNone) =
             (case clf (map (\<lambda>f. case map_of
                         [(''humidity'', hum), (''temperature'', temp), (''mq2'', mq2),
                          (''mq135'', mq135), (''dust'', dust), (''age'', 21),
                          (''smoker_level'', 0), (''allergy_present'', 0),
                          (''allergy_type'', 0), (''occupation_risk'', 0)] f of
                       None \<Rightarrow> 0 | Some v \<Rightarrow> v) (FEATURES_FUTURE st)) of
                Inl e \<Rightarrow> Inl e
              | Inr p \<Rightarrow>
                  Inr (Some p, if p < 0.35 then ''LOW RISK''
                               else if p < 0.65 then ''MEDIUM RISK'' else ''HIGH RISK'')))) \<and>
   run_future_model B st sensor PNone = run_future_model B st sensor (PDict default_patient) \<and>
   map_of default_patient ''age'' = Some (PInt 21) \<and>
   map_of default_patient ''smoker'' = Some (PStr ''Non-smoker'') \<and>
   map_of default_patient ''allergy_present'' = Some (PStr ''No'') \<and>
   map_of default_patient ''allergy_type'' = Some (PStr ''None'') \<and>
   map_of default_patient ''occupation'' = Some (PStr ''Home/Office'')"
proof (intro conjI allI impI)
  have same: "patient_features B (PDict default_patient) = patient_features B PNone"
    by (simp add: patient_features_def default_patient_def)
  then have "build_vector B schema sensor PNone = build_vector B schema sensor (PDict default_patient)"
    for schema
    by (simp add: build_vector_def feat_map_def)
  then show "run_future_model B st sensor PNone = run_future_model B st sensor (PDict default_patient)"
    by (simp add: run_future_model_def split: option.splits)
next
  fix hum temp mq2 mq135 dust
  assume s: "sensor_features B sensor = Inr (hum, temp, mq2, mq135, dust)"
  show fm: "feat_map B sensor PNone =
          Inr [(''humidity'', hum), (''temperature'', temp), (''mq2'', mq2), (''mq135'', mq135),
               (''dust'', dust), (''age'', 21), (''smoker_level'', 0), (''allergy_present'', 0),
               (''allergy_type'', 0), (''occupation_risk'', 0)]"
    by (simp add: feat_map_def s patient_features_default)
  fix clf
  assume m: "future_model st = Some clf \<and> FEATURES_FUTURE st \<noteq> []"
  show "fst (run_future_model B st sensor PNone) =
             (case clf (map (\<lambda>f. case map_of
                         [(''humidity'', hum), (''temperature'', temp), (''mq2'', mq2),
                          (''mq135'', mq135), (''dust'', dust), (''age'', 21),
                          (''smoker_level'', 0), (''allergy_present'', 0),
                          (''allergy_type'', 0), (''occupation_risk'', 0)] f of
                       None \<Rightarrow> 0 | Some v \<Rightarrow> v) (FEATURES_FUTURE st)) of
                Inl e \<Rightarrow> Inl e
              | Inr p \<Rightarrow>
                  Inr (Some p, if p < 0.35 then ''LOW RISK''
                               else if p < 0.65 then ''MEDIUM RISK'' else ''HIGH RISK''))"
    using m
    by (simp add: run_future_model_def build_vector_def fm feature_vector_def sum_bind_def
        risk_label_def split: sum.splits)
qed (simp_all add: default_patient_def)

theorem run_future_model_absent_patient_witness:
  "sensor_features some_builtins [(''mq2'', PInt 7)] = Inr (0, 0, 7, 0, 0) \<and>
   feat_map some_builtins [(''mq2'', PInt 7)] PNone =
     Inr [(''humidity'', 0), (''temperature'', 0), (''mq2'', 7), (''mq135'', 0),
          (''dust'', 0), (''age'', 21), (''smoker_level'', 0), (''allergy_present'', 0),
          (''allergy_type'', 0), (''occupation_risk'', 0)] \<and>
   fst (run_future_model some_builtins
         (probe_state [21, 0, 0, 0, 0, 7] 0.7
            [''age'', ''smoker_level'', ''allergy_present'', ''allergy_type'',
             ''occupation_risk'', ''mq2''])
         [(''mq2'', PInt 7)] PNone) = Inr (Some 0.7, ''HIGH RISK'') \<and>
   fst (run_future_model some_builtins
         (probe_state [20, 0, 0, 0, 0, 7] 0.7
            [''age'', ''smoker_level'', ''allergy_present'', ''allergy_type'',
             ''occupation_risk'', ''mq2''])
         [(''mq2'', PInt 7)] PNone) = Inl ModelError"
proof -
  let ?schema = "[''age'', ''smoker_level'', ''allergy_present'', ''allergy_type'',
                  ''occupation_risk'', ''mq2'']"
  have s: "sensor_features some_builtins [(''mq2'', PInt 7)] = Inr (0, 0, 7, 0, 0)"
    by (simp add: sensor_features_def dict_get_def)
  note T = run_future_model_absent_patient [where B = some_builtins and sensor = "[(''mq2'', PInt 7)]",
      THEN conjunct1, THEN spec, THEN spec, THEN spec, THEN spec, THEN spec, THEN mp, OF s]
  have m: "future_model (probe_state v 0.7 ?schema)
             = Some (\<lambda>vec. if vec = v then Inr 0.7 else Inl ModelError) \<and>
           FEATURES_FUTURE (probe_state v 0.7 ?schema) \<noteq> []" for v
    by (simp add: probe_state_def)
  have sch: "FEATURES_FUTURE (probe_state v 0.7 ?schema) = ?schema" for v
    by (simp add: probe_state_def)
  note R = T [THEN conjunct2, THEN spec, THEN mp, OF m]
  have 1: "fst (run_future_model some_builtins (probe_state [21, 0, 0, 0, 0, 7] 0.7 ?schema)
             [(''mq2'', PInt 7)] PNone) = Inr (Some 0.7, ''HIGH RISK'')"
    unfolding R [of "[21, 0, 0, 0, 0, 7]"] sch by simp
  have 2: "fst (run_future_model some_builtins (probe_state [20, 0, 0, 0, 0, 7] 0.7 ?schema)
             [(''mq2'', PInt 7)] PNone) = Inl ModelError"
    unfolding R [of "[20, 0, 0, 0, 0, 7]"] sch by simp
  show ?thesis
    using s T [THEN conjunct1] 1 2 by simp
qed

text \<open>
  C7. For every sensor input, when each of the four categorical fields of the profile
  is at its default value (or missing), every column of the vector named
  \<^verbatim>\<open>smoker_level\<close>, \<^verbatim>\<open>allergy_present\<close>, \<^verbatim>\<open>allergy_type\<close> or \<^verbatim>\<open>occupation_risk\<close> is \<open>0\<close>.
\<close>

theorem default_profile_categorical_zero:
  assumes "map_of d ''smoker'' = Some (PStr ''Non-smoker'') \<or> map_of d ''smoker'' = None"
    and "map_of d ''allergy_present'' = Some (PStr ''No'') \<or> map_of d ''allergy_present'' = None"
    and "map_of d ''allergy_type'' = Some (PStr ''None'') \<or> map_of d ''allergy_type'' = None"
    and "map_of d ''occupation'' = Some (PStr ''Home/Office'') \<or> map_of d ''occupation'' = None"
    and "build_vector B schema sensor (PDict d) = Inr vec"
  shows "\<forall>i. i < length schema \<and>
           schema ! i \<in> {''smoker_level'', ''allergy_present'', ''allergy_type'', ''occupation_risk''}
           \<longrightarrow> vec ! i = 0"
proof -
  from assms(5) obtain fm where fm: "feat_map B sensor (PDict d) = Inr fm"
    and vec: "vec = feature_vector schema fm"
    by (auto simp: build_vector_Inr)
  from fm obtain i j k where
    e: "map_get smoker_map (dict_get d ''smoker'' (PStr ''Non-smoker'')) 0 = Inr i"
       "map_get allergy_type_map (dict_get d ''allergy_type'' (PStr ''None'')) 0 = Inr j"
       "map_get occ_map (dict_get d ''occupation'' (PStr ''Home/Office'')) 0 = Inr k" and
    m: "map_of fm ''smoker_level'' = Some (of_int i)"
       "map_of fm ''allergy_present'' =
          Some (if map_of d ''allergy_present'' = Some (PStr ''Yes'') then 1 else 0)"
       "map_of fm ''allergy_type'' = Some (of_int j)"
       "map_of fm ''occupation_risk'' = Some (of_int k)"
    by (rule feat_map_dict_Inr)
  have "i = 0" using assms(1) smoker_level_enc(1,4) [OF e(1)] by blast
  moreover have "j = 0" using assms(3) allergy_type_enc(1,6) [OF e(2)] by blast
  moreover have "k = 0" using assms(4) occupation_enc(1,4) [OF e(3)] by blast
  moreover have "map_of d ''allergy_present'' \<noteq> Some (PStr ''Yes'')"
    using assms(2) by auto
  ultimately have z: "map_of fm ''smoker_level'' = Some 0" "map_of fm ''allergy_present'' = Some 0"
    "map_of fm ''allergy_type'' = Some 0" "map_of fm ''occupation_risk'' = Some 0"
    using m by simp_all
  show ?thesis
    by (auto simp: vec feature_vector_nth z)
qed

theorem default_profile_categorical_zero_witness:
  "build_vector some_builtins [''smoker_level'', ''mq2'', ''allergy_type'', ''occupation_risk'', ''allergy_present'']
     [(''mq2'', PInt 7)]
     (PDict [(''age'', PInt 40), (''smoker'', PStr ''Non-smoker''), (''allergy_present'', PStr ''No''),
             (''allergy_type'', PStr ''None''), (''occupation'', PStr ''Home/Office'')])
   = Inr [0, 7, 0, 0, 0] \<and>
   [0, 7, 0, 0, 0] ! 0 = (0::real) \<and> [0, 7, 0, 0, 0] ! 2 = (0::real) \<and>
   [0, 7, 0, 0, 0] ! 3 = (0::real) \<and> [0, 7, 0, 0, 0] ! 4 = (0::real)"
proof -
  let ?schema = "[''smoker_level'', ''mq2'', ''allergy_type'', ''occupation_risk'', ''allergy_present'']"
  let ?d = "[(''age'', PInt 40), (''smoker'', PStr ''Non-smoker''), (''allergy_present'', PStr ''No''),
             (''allergy_type'', PStr ''None''), (''occupation'', PStr ''Home/Office'')]"
  have v: "build_vector some_builtins ?schema [(''mq2'', PInt 7)] (PDict ?d) = Inr [0, 7, 0, 0, 0]"
    by (simp add: build_vector_def feat_map_def sensor_features_def patient_features_def
        dict_get_def smoker_map_def allergy_type_map_def occ_map_def feature_vector_def)
  have h: "map_of ?d ''smoker'' = Some (PStr ''Non-smoker'') \<or> map_of ?d ''smoker'' = None"
    "map_of ?d ''allergy_present'' = Some (PStr ''No'') \<or> map_of ?d ''allergy_present'' = None"
    "map_of ?d ''allergy_type'' = Some (PStr ''None'') \<or> map_of ?d ''allergy_type'' = None"
    "map_of ?d ''occupation'' = Some (PStr ''Home/Office'') \<or> map_of ?d ''occupation'' = None"
    by simp_all
  note T = default_profile_categorical_zero [OF h v]
  have "[0, 7, 0, 0, 0] ! 0 = (0::real)" using T [THEN spec, of 0] by simp
  moreover have "[0, 7, 0, 0, 0] ! 2 = (0::real)" using T [THEN spec, of 2] by simp
  moreover have "[0, 7, 0, 0, 0] ! 3 = (0::real)" using T [THEN spec, of 3] by simp
  moreover have "[0, 7, 0, 0, 0] ! 4 = (0::real)" using T [THEN spec, of 4] by simp
  ultimately show ?thesis using v by blast
qed

section \<open>Purity\<close>

text \<open>
  C8. \<^verbatim>\<open>run_future_model\<close> is deterministic and free of side effects: its result
  depends on the sensor, the patient, the classifier and the schema only, so two calls
  with the same arguments in states that hold the same classifier and schema return the
  same pair, whatever the files hold; the state after a call is the state before it;
  and a second call right after the first returns the same pair again.
\<close>

theorem run_future_model_pure:
  assumes "future_model st1 = future_model st2"
    and "FEATURES_FUTURE st1 = FEATURES_FUTURE st2"
  shows "fst (run_future_model B st1 sensor patient) = fst (run_future_model B st2 sensor patient) \<and>
         snd (run_future_model B st1 sensor patient) = st1 \<and>
         snd (run_future_model B st2 sensor patient) = st2 \<and>
         run_future_model B (snd (run_future_model B st1 sensor patient)) sensor patient
           = run_future_model B st1 sensor patient"
proof -
  have s: "snd (run_future_model B st sensor patient) = st" for st
    by (simp add: run_future_model_def split: option.splits)
  have "fst (run_future_model B st1 sensor patient) = fst (run_future_model B st2 sensor patient)"
    using assms by (simp add: run_future_model_def split: option.splits)
  then show ?thesis by (simp add: s)
qed

theorem run_future_model_pure_witness:
  "fst (run_future_model some_builtins (const_state 0.7 [''mq2'']) [(''mq2'', PInt 7)] PNone)
     = fst (run_future_model some_builtins
             ((const_state 0.7 [''mq2''])\<lparr>files := no_files(ATTACKS_FILE := Some (PList []))\<rparr>)
             [(''mq2'', PInt 7)] PNone) \<and>
   snd (run_future_model some_builtins (const_state 0.7 [''mq2'']) [(''mq2'', PInt 7)] PNone)
     = const_state 0.7 [''mq2'']"
proof -
  let ?st1 = "const_state 0.7 [''mq2'']"
  let ?st2 = "(const_state 0.7 [''mq2''])\<lparr>files := no_files(ATTACKS_FILE := Some (PList []))\<rparr>"
  have h: "future_model ?st1 = future_model ?st2" "FEATURES_FUTURE ?st1 = FEATURES_FUTURE ?st2"
    by simp_all
  from run_future_model_pure [OF h, of some_builtins "[(''mq2'', PInt 7)]" PNone]
  show ?thesis by blast
qed

section \<open>Sensor defaults\<close>

lemma api_sensor_fields_dict_Inr:
  "api_sensor_fields B (PDict d) = Inr (temp, hum, mq2, mq135, dust) \<longleftrightarrow>
     py_float B (dict_get d ''temperature'' (PInt 0)) = Inr temp \<and>
     py_float B (dict_get d ''humidity'' (PInt 0)) = Inr hum \<and>
     py_int B (dict_get d ''mq2'' (PInt 1)) = Inr mq2 \<and>
     py_int B (dict_get d ''mq135'' (PInt 1)) = Inr mq135 \<and>
     py_float B (dict_get d ''dust_equiv'' (dict_get d ''dust'' (PInt 0))) = Inr dust"
proof (cases "d = []")
  case True
  then show ?thesis
    by (auto simp: api_sensor_fields_def dict_get_def)
next
  case False
  then show ?thesis
    by (auto simp: api_sensor_fields_def sum_bind_Inr_iff)
qed

lemma api_sensor_fields_falsy:
  "\<not> truthy payload \<Longrightarrow> api_sensor_fields B payload = Inr (0, 0, 1, 1, 0)"
  by (simp add: api_sensor_fields_def dict_get_def)

lemma sensor_features_sensor_dict:
  "sensor_features B (sensor_dict (temp, hum, mq2, mq135, dust))
     = sum_bind (float_of_int mq2) (\<lambda>m2. sum_bind (float_of_int mq135) (\<lambda>m135.
         Inr (hum, temp, m2, m135, dust)))"
  by (simp add: sensor_features_def sensor_dict_def dict_get_def)

text \<open>An integer beyond the range of a float makes the feature encoding raise.\<close>

lemma sensor_features_overflow:
  "map_of sensor ''humidity'' = Some (PInt i) \<Longrightarrow> 2 ^ 1024 \<le> \<bar>i\<bar> \<Longrightarrow>
   sensor_features B sensor = Inl OverflowError"
  by (simp add: sensor_features_def dict_get_def float_of_int_overflow)

lemma sensor_features_sensor_dict_overflow:
  "2 ^ 1024 \<le> \<bar>mq2\<bar> \<Longrightarrow>
   sensor_features B (sensor_dict (temp, hum, mq2, mq135, dust)) = Inl OverflowError"
  by (simp add: sensor_features_sensor_dict float_of_int_overflow)

lemma feat_map_sensor_dict:
  assumes "feat_map B (sensor_dict (temp, hum, mq2, mq135, dust)) patient = Inr fm"
  shows "map_of fm ''temperature'' = Some temp" and "map_of fm ''humidity'' = Some hum"
    and "map_of fm ''dust'' = Some dust"
    and "float_of_int mq2 = Inr (the (map_of fm ''mq2''))"
    and "float_of_int mq135 = Inr (the (map_of fm ''mq135''))"
  using assms
  by (auto simp: feat_map_Inr sensor_features_sensor_dict sum_bind_Inr_iff)

lemma feat_map_sensor:
  assumes "feat_map B sensor patient = Inr fm"
  shows "py_float B (dict_get sensor ''humidity'' (PInt 0)) = Inr (the (map_of fm ''humidity''))"
    and "py_float B (dict_get sensor ''temperature'' (PInt 0)) = Inr (the (map_of fm ''temperature''))"
    and "py_float B (dict_get sensor ''mq2'' (PInt 0)) = Inr (the (map_of fm ''mq2''))"
    and "py_float B (dict_get sensor ''mq135'' (PInt 0)) = Inr (the (map_of fm ''mq135''))"
    and "py_float B (dict_get sensor ''dust_equiv'' (dict_get sensor ''dust'' (PInt 0)))
           = Inr (the (map_of fm ''dust''))"
    and "set feature_names \<subseteq> dom (map_of fm)"
  using assms
  by (auto simp: feat_map_Inr sensor_features_Inr feature_names_def)




section \<open>Logging of high risk\<close>

lemma str_in_labels:
  "str_in ''HIGH'' ''HIGH RISK''"
  "\<not> str_in ''HIGH'' ''LOW RISK''"
  "\<not> str_in ''HIGH'' ''MEDIUM RISK''"
  "\<not> str_in ''HIGH'' ''UNKNOWN''"
  by simp_all

lemma run_future_model_snd: "snd (run_future_model B st sensor patient) = st"
  by (simp add: run_future_model_def split: option.splits)

lemma run_future_model_files:
  "fst (run_future_model B (save_json st p v) sensor patient)
     = fst (run_future_model B st sensor patient)"
  by (simp add: run_future_model_def save_json_def split: option.splits)

lemma run_future_model_labels:
  assumes "fst (run_future_model B st sensor patient) = Inr (prob, label)"
  shows "label = ''UNKNOWN'' \<or> label = ''LOW RISK'' \<or> label = ''MEDIUM RISK'' \<or> label = ''HIGH RISK''"
  using assms
  by (auto simp: run_future_model_def risk_label_def sum_bind_Inr_iff split: option.splits if_splits)

lemma run_future_model_high:
  assumes "fst (run_future_model B st sensor patient) = Inr (prob, label)"
  shows "str_in ''HIGH'' label \<longleftrightarrow> label = ''HIGH RISK''"
  using run_future_model_labels [OF assms] str_in_labels by auto

lemma load_json_files:
  "dflt \<noteq> PNone \<Longrightarrow> load_json st p dflt = (case files st p of None \<Rightarrow> dflt | Some v \<Rightarrow> v)"
  by (simp add: load_json_def)

lemma load_json_list:
  "files st p = None \<and> xs = [] \<or> files st p = Some (PList xs) \<Longrightarrow>
   load_json st p (PList []) = PList xs"
  by (auto simp: load_json_def)

lemma load_json_save_json:
  "load_json (save_json st p v) q dflt = (if q = p then v else load_json st q dflt)"
  by (simp add: load_json_def save_json_def)

lemma files_save_json: "files (save_json st p v) q = (if q = p then Some v else files st q)"
  by (simp add: save_json_def)

lemma log_high_risk_eq:
  assumes "load_json st ATTACKS_FILE (PList []) = PList as"
    and "load_json st ALERTS_FILE (PList []) = PList als"
  shows "log_high_risk B ts flds prob label st =
     (case prob of
        None \<Rightarrow> (Inr (), st)
      | Some p \<Rightarrow>
          if str_in ''HIGH'' label
          then (Inr (), save_json (save_json st ATTACKS_FILE
                          (PList (as @ [attack_record B ts flds p label])))
                        ALERTS_FILE (PList (als @ [alert_record B ts flds])))
          else (Inr (), st))"
  using assms
  by (simp add: log_high_risk_def load_json_save_json Let_def split: option.splits)

lemma api_sensor_run:
  assumes f: "api_sensor_fields B payload = Inr flds"
    and r: "py_append (load_json st READINGS_FILE (PList [])) (reading ts flds) = Inr readings"
    and m: "fst (run_future_model B st (sensor_dict flds)
                  (load_json st PATIENT_FILE (PDict default_patient))) = res"
  shows "api_sensor B ts payload st =
     (case res of
        Inl e \<Rightarrow> (Inl e, save_json st READINGS_FILE readings)
      | Inr (prob, label) \<Rightarrow>
          (case log_high_risk B ts flds prob label (save_json st READINGS_FILE readings) of
             (Inl e, st3) \<Rightarrow> (Inl e, st3)
           | (Inr u, st3) \<Rightarrow>
               (Inr \<lparr>resp_status = ''ok'', resp_timestamp = ts,
                     resp_probability = prob, resp_label = label\<rparr>, st3)))"
proof -
  let ?st1 = "save_json st READINGS_FILE readings"
  let ?patient = "load_json st PATIENT_FILE (PDict default_patient)"
  have "fst (run_future_model B ?st1 (sensor_dict flds) ?patient) = res"
    using m by (simp add: run_future_model_files)
  then have "run_future_model B ?st1 (sensor_dict flds) ?patient = (res, ?st1)"
    using run_future_model_snd [of B ?st1] by (metis prod.collapse)
  then show ?thesis
    by (simp add: api_sensor_def f r load_json_save_json Let_def)
qed

text \<open>
  C9. In \<^verbatim>\<open>api_sensor\<close>, with the attack log and the alert log each a JSON list (or
  not yet written): whenever the payload is read, the readings log is a list and
  \<^verbatim>\<open>run_future_model\<close> returns, the reply carries the computed probability and label,
  the reading is appended to the readings log, and one attack record and one alert
  record are appended to the entries already in their logs exactly when the probability
  is present and the label is HIGH RISK; for LOW RISK, MEDIUM RISK and UNKNOWN, and
  whenever an exception ends the call, both logs are as they were. Both logs are lists
  (or not yet written) again afterwards.
\<close>

theorem api_sensor_logs_high_risk_only:
  assumes "files st ATTACKS_FILE = None \<and> as = [] \<or> files st ATTACKS_FILE = Some (PList as)"
    and "files st ALERTS_FILE = None \<and> als = [] \<or> files st ALERTS_FILE = Some (PList als)"
    and "api_sensor B ts payload st = (out, st')"
  shows
    "(\<forall>flds rs prob label.
        api_sensor_fields B payload = Inr flds \<and>
        (files st READINGS_FILE = None \<and> rs = [] \<or> files st READINGS_FILE = Some (PList rs)) \<and>
        fst (run_future_model B st (sensor_dict flds)
              (case files st PATIENT_FILE of None \<Rightarrow> PDict default_patient | Some v \<Rightarrow> v))
          = Inr (prob, label) \<longrightarrow>
          out = Inr \<lparr>resp_status = ''ok'', resp_timestamp = ts,
                      resp_probability = prob, resp_label = label\<rparr> \<and>
          files st' READINGS_FILE = Some (PList (rs @ [reading ts flds])) \<and>
          (\<forall>p. prob = Some p \<and> label = ''HIGH RISK'' \<longrightarrow>
             files st' ATTACKS_FILE
               = Some (PList (as @ [attack_record B ts flds p ''HIGH RISK''])) \<and>
             files st' ALERTS_FILE = Some (PList (als @ [alert_record B ts flds]))) \<and>
          (prob = None \<or> label \<noteq> ''HIGH RISK'' \<longrightarrow>
             files st' ATTACKS_FILE = files st ATTACKS_FILE \<and>
             files st' ALERTS_FILE = files st ALERTS_FILE)) \<and>
     (\<forall>r p. out = Inr r \<and> resp_probability r = Some p \<and> resp_label r = ''HIGH RISK'' \<longrightarrow>
        (\<exists>flds. api_sensor_fields B payload = Inr flds \<and>
           files st' ATTACKS_FILE
             = Some (PList (as @ [attack_record B ts flds p ''HIGH RISK''])) \<and>
           files st' ALERTS_FILE = Some (PList (als @ [alert_record B ts flds])))) \<and>
     (\<not> (\<exists>r p. out = Inr r \<and> resp_probability r = Some p \<and> resp_label r = ''HIGH RISK'') \<longrightarrow>
        files st' ATTACKS_FILE = files st ATTACKS_FILE \<and>
        files st' ALERTS_FILE = files st ALERTS_FILE) \<and>
     (\<forall>r. out = Inr r \<longrightarrow>
        (\<exists>flds. api_sensor_fields B payload = Inr flds \<and>
           fst (run_future_model B st (sensor_dict flds)
                 (case files st PATIENT_FILE of None \<Rightarrow> PDict default_patient | Some v \<Rightarrow> v))
             = Inr (resp_probability r, resp_label r))) \<and>
     (files st' ATTACKS_FILE = None \<or> (\<exists>xs. files st' ATTACKS_FILE = Some (PList xs))) \<and>
     (files st' ALERTS_FILE = None \<or> (\<exists>xs. files st' ALERTS_FILE = Some (PList xs)))"
    (is "?C1 \<and> ?C2 \<and> ?C3 \<and> ?C4 \<and> ?C5 \<and> ?C6")
proof -
  let ?patient = "case files st PATIENT_FILE of None \<Rightarrow> PDict default_patient | Some v \<Rightarrow> v"
  have pat: "load_json st PATIENT_FILE (PDict default_patient) = ?patient"
    by (simp add: load_json_files)
  have as: "load_json st ATTACKS_FILE (PList []) = PList as"
    using assms(1) by (rule load_json_list)
  have als: "load_json st ALERTS_FILE (PList []) = PList als"
    using assms(2) by (rule load_json_list)
  have wf: "files st ATTACKS_FILE = None \<or> (\<exists>xs. files st ATTACKS_FILE = Some (PList xs))"
    "files st ALERTS_FILE = None \<or> (\<exists>xs. files st ALERTS_FILE = Some (PList xs))"
    using assms(1,2) by auto
  show ?thesis
  proof (cases "api_sensor_fields B payload")
    case (Inl e)
    with assms(3) have "out = Inl e" "st' = st"
      by (simp_all add: api_sensor_def)
    then show ?thesis using wf Inl by simp
  next
    case f: (Inr flds)
    show ?thesis
    proof (cases "py_append (load_json st READINGS_FILE (PList [])) (reading ts flds)")
      case (Inl e)
      with assms(3) f have o: "out = Inl e" "st' = st"
        by (simp_all add: api_sensor_def)
      have nl: "load_json st READINGS_FILE (PList []) \<noteq> PList rs" for rs
        using Inl by auto
      have nr1: "files st READINGS_FILE \<noteq> None"
      proof
        assume "files st READINGS_FILE = None"
        then have "load_json st READINGS_FILE (PList []) = PList []"
          by (simp add: load_json_def)
        with nl show False by blast
      qed
      have nr2: "files st READINGS_FILE \<noteq> Some (PList rs)" for rs
      proof
        assume "files st READINGS_FILE = Some (PList rs)"
        then have "load_json st READINGS_FILE (PList []) = PList rs"
          by (simp add: load_json_def)
        with nl show False by blast
      qed
      note nr = nr1 nr2
      show ?thesis using wf o nr by simp
    next
      case r: (Inr readings)
      let ?st1 = "save_json st READINGS_FILE readings"
      let ?res = "fst (run_future_model B st (sensor_dict flds) ?patient)"
      note step = api_sensor_run [OF f r pat [THEN arg_cong, of "\<lambda>x. fst (run_future_model B st (sensor_dict flds) x)"]]
      have rd: "readings = PList (rs @ [reading ts flds])"
        if "files st READINGS_FILE = None \<and> rs = [] \<or> files st READINGS_FILE = Some (PList rs)" for rs
        using r load_json_list [OF that] by simp
      have as1: "load_json ?st1 ATTACKS_FILE (PList []) = PList as"
        and als1: "load_json ?st1 ALERTS_FILE (PList []) = PList als"
        using as als by (simp_all add: load_json_save_json)
      have keep: "files ?st1 ATTACKS_FILE = files st ATTACKS_FILE"
        "files ?st1 ALERTS_FILE = files st ALERTS_FILE"
        "files ?st1 READINGS_FILE = Some readings"
        by (simp_all add: files_save_json)
      show ?thesis
      proof (cases ?res)
        case (Inl e)
        with assms(3) step have "out = Inl e" "st' = ?st1"
          by simp_all
        then show ?thesis using keep wf f Inl by simp
      next
        case (Inr pl)
        obtain prob label where pl: "pl = (prob, label)"
          by (cases pl)
        have res: "?res = Inr (prob, label)"
          using Inr pl by simp
        have high: "str_in ''HIGH'' label \<longleftrightarrow> label = ''HIGH RISK''"
          using res by (rule run_future_model_high)
        let ?resp = "\<lparr>resp_status = ''ok'', resp_timestamp = ts,
                      resp_probability = prob, resp_label = label\<rparr>"
        let ?attacks = "PList (as @ [attack_record B ts flds (the prob) ''HIGH RISK''])"
        let ?alerts = "PList (als @ [alert_record B ts flds])"
        have final: "out = Inr ?resp \<and>
            files st' READINGS_FILE = Some readings \<and>
            files st' ATTACKS_FILE
              = (if prob \<noteq> None \<and> label = ''HIGH RISK'' then Some ?attacks
                 else files st ATTACKS_FILE) \<and>
            files st' ALERTS_FILE
              = (if prob \<noteq> None \<and> label = ''HIGH RISK'' then Some ?alerts
                 else files st ALERTS_FILE)"
        proof (cases "prob \<noteq> None \<and> label = ''HIGH RISK''")
          case True
          then obtain p where p: "prob = Some p" and l: "label = ''HIGH RISK''"
            by auto
          have "log_high_risk B ts flds prob label ?st1 =
                  (Inr (), save_json (save_json ?st1 ATTACKS_FILE
                                        (PList (as @ [attack_record B ts flds p ''HIGH RISK''])))
                                     ALERTS_FILE (PList (als @ [alert_record B ts flds])))"
            using high by (simp add: log_high_risk_eq [OF as1 als1] p l)
          with assms(3) step res have o: "out = Inr ?resp"
            and s: "st' = save_json (save_json ?st1 ATTACKS_FILE
                                        (PList (as @ [attack_record B ts flds p ''HIGH RISK''])))
                                     ALERTS_FILE (PList (als @ [alert_record B ts flds]))"
            by simp_all
          show ?thesis
            by (simp add: o s p l files_save_json)
        next
          case False
          then have "log_high_risk B ts flds prob label ?st1 = (Inr (), ?st1)"
            using high by (auto simp: log_high_risk_eq [OF as1 als1] split: option.splits)
          with assms(3) step res have o: "out = Inr ?resp" and s: "st' = ?st1"
            by simp_all
          show ?thesis
            unfolding if_not_P [OF False] by (simp add: o s files_save_json)
        qed
        note o = final [THEN conjunct1]
        note fr = final [THEN conjunct2, THEN conjunct1]
        note fa = final [THEN conjunct2, THEN conjunct2, THEN conjunct1]
        note fl = final [THEN conjunct2, THEN conjunct2, THEN conjunct2]
        have c1: ?C1
        proof (intro allI impI, elim conjE)
          fix flds' rs prob' label'
          assume a: "api_sensor_fields B payload = Inr flds'"
            and b: "files st READINGS_FILE = None \<and> rs = [] \<or>
                    files st READINGS_FILE = Some (PList rs)"
            and c: "fst (run_future_model B st (sensor_dict flds') ?patient) = Inr (prob', label')"
          from a f have e1: "flds' = flds" by simp
          from c res have e2: "prob' = prob" "label' = label"
            unfolding e1 by simp_all
          have e3: "readings = PList (rs @ [reading ts flds])"
            using b by (rule rd)
          show "out = Inr \<lparr>resp_status = ''ok'', resp_timestamp = ts,
                      resp_probability = prob', resp_label = label'\<rparr> \<and>
            files st' READINGS_FILE = Some (PList (rs @ [reading ts flds'])) \<and>
            (\<forall>p. prob' = Some p \<and> label' = ''HIGH RISK'' \<longrightarrow>
               files st' ATTACKS_FILE
                 = Some (PList (as @ [attack_record B ts flds' p ''HIGH RISK''])) \<and>
               files st' ALERTS_FILE = Some (PList (als @ [alert_record B ts flds']))) \<and>
            (prob' = None \<or> label' \<noteq> ''HIGH RISK'' \<longrightarrow>
               files st' ATTACKS_FILE = files st ATTACKS_FILE \<and>
               files st' ALERTS_FILE = files st ALERTS_FILE)"
            unfolding e1 e2 by (auto simp: o fr fa fl e3)
        qed
        have c2: ?C2
          using f by (auto simp: o fa fl)
        have c3: ?C3
          by (auto simp: o fa fl)
        have c4: ?C4
          using f res by (auto simp: o)
        have c5: ?C5
          using wf(1) by (auto simp: fa)
        have c6: ?C6
          using wf(2) by (auto simp: fl)
        show ?thesis
          by (intro conjI) (fact c1 c2 c3 c4 c5 c6)+
      qed
    qed
  qed
qed

theorem api_sensor_logs_high_risk_only_witness:
  "files (logged_state 0.7 [''mq2'']) ATTACKS_FILE = Some (PList [PStr ''old attack'']) \<and>
   files (logged_state 0.7 [''mq2'']) ALERTS_FILE = Some (PList [PStr ''old alert'']) \<and>
   fst (api_sensor some_builtins ''t0'' (PDict [(''temperature'', PFloat 30)])
         (logged_state 0.7 [''mq2'']))
     = Inr \<lparr>resp_status = ''ok'', resp_timestamp = ''t0'',
             resp_probability = Some 0.7, resp_label = ''HIGH RISK''\<rparr> \<and>
   files (snd (api_sensor some_builtins ''t0'' (PDict [(''temperature'', PFloat 30)])
                (logged_state 0.7 [''mq2'']))) READINGS_FILE
     = Some (PList [PStr ''old reading'', PDict [(''timestamp'', PStr ''t0''), (''temperature'', PFloat 30),
                           (''humidity'', PFloat 0), (''mq2'', PInt 1), (''mq135'', PInt 1),
                           (''dust_equiv'', PFloat 0)]]) \<and>
   files (snd (api_sensor some_builtins ''t0'' (PDict [(''temperature'', PFloat 30)])
                (logged_state 0.7 [''mq2'']))) ATTACKS_FILE
     = Some (PList [PStr ''old attack'',
                    PDict [(''timestamp'', PStr ''t0''), (''probability'', PFloat 0.7),
                           (''risk_label'', PStr ''HIGH RISK''),
                           (''details'', PStr ''T=?, H=?, MQ2=?, MQ135=?, Dust=?'')]]) \<and>
   files (snd (api_sensor some_builtins ''t0'' (PDict [(''temperature'', PFloat 30)])
                (logged_state 0.7 [''mq2'']))) ALERTS_FILE
     = Some (PList [PStr ''old alert'', PDict [(''timestamp'', PStr ''t0''),
                           (''message'', PStr ''HIGH Immediate Asthma Risk Detected!''),
                           (''details'', PStr ''T=?, H=?, MQ2=?, MQ135=?, Dust=?'')]]) \<and>
   fst (api_sensor some_builtins ''t0'' (PDict [(''temperature'', PFloat 30)])
         (logged_state 0.1 [''mq2'']))
     = Inr \<lparr>resp_status = ''ok'', resp_timestamp = ''t0'',
             resp_probability = Some 0.1, resp_label = ''LOW RISK''\<rparr> \<and>
   files (snd (api_sensor some_builtins ''t0'' (PDict [(''temperature'', PFloat 30)])
                (logged_state 0.1 [''mq2'']))) ATTACKS_FILE = Some (PList [PStr ''old attack'']) \<and>
   files (snd (api_sensor some_builtins ''t0'' (PDict [(''temperature'', PFloat 30)])
                (logged_state 0.1 [''mq2'']))) ALERTS_FILE = Some (PList [PStr ''old alert''])"
proof -
  let ?payload = "PDict [(''temperature'', PFloat 30)]"
  let ?flds = "(30, 0, 1, 1, 0) :: fields"
  let ?run = "\<lambda>p. api_sensor some_builtins ''t0'' ?payload (logged_state p [''mq2''])"
  have fa: "files (logged_state p [''mq2'']) ATTACKS_FILE = Some (PList [PStr ''old attack''])"
    and fl: "files (logged_state p [''mq2'']) ALERTS_FILE = Some (PList [PStr ''old alert''])"
    and fr: "files (logged_state p [''mq2'']) READINGS_FILE = Some (PList [PStr ''old reading''])"
    and fp: "files (logged_state p [''mq2'']) PATIENT_FILE = None" for p
    by (simp_all add: logged_state_def old_files_def no_files_def)
  have a: "files (logged_state p [''mq2'']) ATTACKS_FILE = None \<and> [PStr ''old attack''] = [] \<or>
           files (logged_state p [''mq2'']) ATTACKS_FILE = Some (PList [PStr ''old attack''])"
    and l: "files (logged_state p [''mq2'']) ALERTS_FILE = None \<and> [PStr ''old alert''] = [] \<or>
            files (logged_state p [''mq2'']) ALERTS_FILE = Some (PList [PStr ''old alert''])" for p
    by (simp_all add: fa fl)
  have f: "api_sensor_fields some_builtins ?payload = Inr ?flds"
    by (simp add: api_sensor_fields_dict_Inr dict_get_def)
  have bv: "build_vector some_builtins [''mq2''] (sensor_dict ?flds) (PDict default_patient) = Inr [1]"
    by (simp add: build_vector_def feat_map_def sensor_features_sensor_dict
        patient_features_def default_patient_def dict_get_def smoker_map_def
        allergy_type_map_def occ_map_def feature_vector_def)
  have m: "fst (run_future_model some_builtins (logged_state p [''mq2'']) (sensor_dict ?flds)
                 (case files (logged_state p [''mq2'']) PATIENT_FILE of
                    None \<Rightarrow> PDict default_patient | Some v \<Rightarrow> v))
             = Inr (Some p, risk_label p)" for p
    unfolding fp by (simp add: run_future_model_def logged_state_def bv)
  have l7: "risk_label 0.7 = ''HIGH RISK''" and l1: "risk_label 0.1 = ''LOW RISK''"
    by (simp_all add: risk_label_def)
  have pre: "api_sensor_fields some_builtins ?payload = Inr ?flds \<and>
      (files (logged_state p [''mq2'']) READINGS_FILE = None \<and> [PStr ''old reading''] = [] \<or>
       files (logged_state p [''mq2'']) READINGS_FILE = Some (PList [PStr ''old reading''])) \<and>
      fst (run_future_model some_builtins (logged_state p [''mq2'']) (sensor_dict ?flds)
            (case files (logged_state p [''mq2'']) PATIENT_FILE of
               None \<Rightarrow> PDict default_patient | Some v \<Rightarrow> v))
        = Inr (Some p, risk_label p)" for p
    using f m by (simp add: fr)
  note T = api_sensor_logs_high_risk_only [where B = some_builtins and ts = "''t0''"
      and payload = ?payload, OF a l prod.collapse [symmetric], THEN conjunct1,
      THEN spec, THEN spec, THEN spec, THEN spec, THEN mp, OF pre]
  have h: "fst (?run 0.7) = Inr \<lparr>resp_status = ''ok'', resp_timestamp = ''t0'',
               resp_probability = Some 0.7, resp_label = ''HIGH RISK''\<rparr> \<and>
      files (snd (?run 0.7)) READINGS_FILE
        = Some (PList [PStr ''old reading'', reading ''t0'' ?flds]) \<and>
      files (snd (?run 0.7)) ATTACKS_FILE
        = Some (PList [PStr ''old attack'',
                       attack_record some_builtins ''t0'' ?flds 0.7 ''HIGH RISK'']) \<and>
      files (snd (?run 0.7)) ALERTS_FILE
        = Some (PList [PStr ''old alert'', alert_record some_builtins ''t0'' ?flds])"
    using T [of "0.7", unfolded l7, THEN conjunct1]
      T [of "0.7", unfolded l7, THEN conjunct2, THEN conjunct1]
      T [of "0.7", unfolded l7, THEN conjunct2, THEN conjunct2, THEN conjunct1, THEN spec, of "0.7"]
    by simp
  have w: "fst (?run 0.1) = Inr \<lparr>resp_status = ''ok'', resp_timestamp = ''t0'',
               resp_probability = Some 0.1, resp_label = ''LOW RISK''\<rparr> \<and>
      files (snd (?run 0.1)) ATTACKS_FILE = Some (PList [PStr ''old attack'']) \<and>
      files (snd (?run 0.1)) ALERTS_FILE = Some (PList [PStr ''old alert''])"
    using T [of "0.1"] unfolding l1 by (simp add: fa fl)
  show ?thesis
    using h w
    by (simp add: fa fl reading_def attack_record_def alert_record_def details_def
        some_builtins_def)
qed

end
